theory Spec2Isabelle
  imports Main
begin

section \<open>Format identifiers and errors\<close>

text \<open>The enumeration \<^verbatim>\<open>FormatType\<close> of \<^verbatim>\<open>rdm/core/__init__.py\<close>.\<close>

datatype FormatType = HDF5 | ZARR | RLDS | LEROBOT | JSON | PICKLE | NUMPY | AUTO

section \<open>Paths\<close>

text \<open>
  A \<^verbatim>\<open>pathlib.Path\<close> is modelled by its list of components, outermost first; the empty
  list is the current directory. The operations below are the ones the program uses:
  \<^verbatim>\<open>name\<close>, \<^verbatim>\<open>suffix\<close>, \<^verbatim>\<open>parent\<close>, \<^verbatim>\<open>with_suffix\<close>, \<^verbatim>\<open>relative_to\<close> and \<^verbatim>\<open>/\<close>.
\<close>

type_synonym path = "string list"

definition path_name :: "path \<Rightarrow> string" where
  "path_name p = (if p = [] then [] else last p)"

definition path_parent :: "path \<Rightarrow> path" where
  "path_parent p = butlast p"

fun find_index :: "char \<Rightarrow> string \<Rightarrow> nat option" where
  "find_index c [] = None"
| "find_index c (x # xs) =
     (if x = c then Some 0 else (case find_index c xs of None \<Rightarrow> None | Some k \<Rightarrow> Some (Suc k)))"

text \<open>\<^verbatim>\<open>str.rfind\<close>: the index of the last occurrence, or \<open>-1\<close>.\<close>

definition rfind :: "char \<Rightarrow> string \<Rightarrow> int" where
  "rfind c s = (case find_index c (rev s) of None \<Rightarrow> - 1
                | Some k \<Rightarrow> int (length s) - 1 - int k)"

text \<open>
  \<^verbatim>\<open>PurePath.suffix\<close>: with \<open>i\<close> the index of the last dot of the name, the suffix is
  \<^verbatim>\<open>name[i:]\<close> when \<^verbatim>\<open>0 < i < len(name) - 1\<close> and the empty string otherwise.
\<close>

definition path_suffix :: "path \<Rightarrow> string" where
  "path_suffix p =
     (let nm = path_name p; i = rfind CHR ''.'' nm
      in if 0 < i \<and> i < int (length nm) - 1 then drop (nat i) nm else [])"

text \<open>\<^verbatim>\<open>str.lower\<close> on the ASCII letters.\<close>

definition lower_char :: "char \<Rightarrow> char" where
  "lower_char c =
     (let n = (of_char c :: nat) in if 65 \<le> n \<and> n \<le> 90 then char_of (n + 32) else c)"

definition lower :: "string \<Rightarrow> string" where
  "lower s = map lower_char s"

section \<open>Format detection\<close>

text \<open>The dictionary \<^verbatim>\<open>format_mapping\<close> of \<^verbatim>\<open>DataManager._detect_format\<close>.\<close>

definition format_mapping :: "(string \<times> FormatType) list" where
  "format_mapping =
     [(''.h5'', HDF5), (''.hdf5'', HDF5), (''.zarr'', ZARR), (''.json'', JSON),
      (''.pkl'', PICKLE), (''.pickle'', PICKLE), (''.npy'', NUMPY), (''.npz'', NUMPY)]"

definition detect_format :: "path \<Rightarrow> FormatType" where
  "detect_format p =
     (case map_of format_mapping (lower (path_suffix p)) of
        Some f \<Rightarrow> f
      | None \<Rightarrow> HDF5)"

section \<open>Exceptions and Python values\<close>

text \<open>
  Every exception the program can meet is a value of \<open>error\<close>; all of them are
  subclasses of \<^verbatim>\<open>Exception\<close>, so a clause \<^verbatim>\<open>except Exception\<close> catches each of them.
  \<^verbatim>\<open>FileNotFoundError\<close> carries the path it complains about.
\<close>

datatype error =
    FileNotFoundError path
  | FileExistsError path
  | ValueError
  | TypeError
  | AttributeError
  | KeyError
  | OSError
  | DataValidationError

text \<open>
  The values a data dictionary holds. A float is kept as the bit pattern of the double
  (no arithmetic is done on it). An \<^verbatim>\<open>numpy.ndarray\<close> is its element type, its shape and
  its elements in row-major order. Dictionary keys are strings, and a dictionary is
  the list of its items in insertion order.
\<close>

datatype dtype = DInt | DFloat | DBool | DUnicode | DBytes | DObject

datatype scalar =
  SInt int | SFloat int | SBool bool | SStr string | SBytes string | SNone | SObject nat

datatype ndarray = NDArray dtype "nat list" "scalar list"

datatype pyval =
    PNone
  | PBool bool
  | PInt int
  | PFloat int
  | PStr string
  | PList "pyval list"
  | PTuple "pyval list"
  | PDict "(string \<times> pyval) list"
  | PArray ndarray

fun array_dtype :: "ndarray \<Rightarrow> dtype" where
  "array_dtype (NDArray dt sh xs) = dt"

fun array_flat :: "ndarray \<Rightarrow> scalar list" where
  "array_flat (NDArray dt sh xs) = xs"

section \<open>Hierarchical stores\<close>

text \<open>
  An open h5py file or zarr store is a group: the list of its members in creation
  order, each a subgroup or a dataset holding an array. \<^verbatim>\<open>keys()\<close> enumerates the members
  (a dictionary built from them does not depend on the order of enumeration).
\<close>

datatype h5item = H5Group "(string \<times> h5item) list" | H5Dataset ndarray

type_synonym h5group = "(string \<times> h5item) list"

section \<open>The libraries the codecs call\<close>

text \<open>
  The byte-level encoders and decoders (numpy, h5py, zarr, json, pickle, tensorflow) are
  not part of the repository. What the codecs ask of them is gathered in one record,
  a parameter of the model; \<open>'c\<close> is the type of the contents of a byte file.

  \<^item> \<open>np_array v\<close> is \<^verbatim>\<open>np.array(v)\<close>, \<open>np_array_S xs\<close> is \<^verbatim>\<open>np.array(xs, dtype="S")\<close>,
    \<open>py_str x\<close> is \<^verbatim>\<open>str(x)\<close>;
  \<^item> \<open>h5_accepts_gzip a\<close> says whether h5py creates a gzip-compressed dataset from
    \<open>a\<close>, \<open>h5_accepts a\<close> whether it creates an uncompressed one; likewise for zarr
    with and without the blosc compressor;
  \<^item> \<open>h5_at_path key g\<close> is what h5py does when a member is created in the group \<open>g\<close>
    under a name that is not a plain name (a name that holds \<^verbatim>\<open>/\<close> is a path, along
    which the library creates the missing groups): it raises, or it gives the group
    as a function of the member created. \<open>zarr_at_path\<close> is the same for zarr;
  \<^item> a decoder returns the value or the exception; an encoder returns what it wrote
    and the exception, if any, that stopped it. \<open>json_dump\<close> is \<^verbatim>\<open>json.dump\<close> with the
    codec's \<^verbatim>\<open>_json_serializer\<close> as \<^verbatim>\<open>default\<close>.
\<close>

record 'c extlib =
  np_array :: "pyval \<Rightarrow> error + ndarray"
  np_array_S :: "string list \<Rightarrow> error + ndarray"
  py_str :: "scalar \<Rightarrow> string"
  h5_accepts_gzip :: "ndarray \<Rightarrow> bool"
  h5_accepts :: "ndarray \<Rightarrow> bool"
  zarr_accepts_blosc :: "ndarray \<Rightarrow> bool"
  zarr_accepts :: "ndarray \<Rightarrow> bool"
  h5_at_path :: "string \<Rightarrow> h5group \<Rightarrow> error + (h5item \<Rightarrow> h5group)"
  zarr_at_path :: "string \<Rightarrow> h5group \<Rightarrow> error + (h5item \<Rightarrow> h5group)"
  json_load :: "'c \<Rightarrow> error + pyval"
  json_dump :: "pyval \<Rightarrow> 'c \<times> error option"
  pickle_load :: "'c \<Rightarrow> error + pyval"
  pickle_dump :: "pyval \<Rightarrow> 'c \<times> error option"
  np_load :: "'c \<Rightarrow> error + ndarray"
  np_load_npz :: "'c \<Rightarrow> error + (string \<times> pyval) list"
  np_save :: "pyval \<Rightarrow> 'c \<times> error option"
  np_savez :: "(string \<times> pyval) list \<Rightarrow> 'c \<times> error option"
  tf_records :: "'c \<Rightarrow> error + nat"
  tf_write :: "nat \<Rightarrow> 'c"

section \<open>Members of a group\<close>

text \<open>
  A plain name is one that both libraries take as the name of a member of the group
  itself: it is not empty, holds no \<^verbatim>\<open>/\<close>, and is neither \<^verbatim>\<open>.\<close> nor \<^verbatim>\<open>..\<close>. Under a plain
  name \<^verbatim>\<open>create_group\<close> and \<^verbatim>\<open>create_dataset\<close> add the member to the group and raise
  when the name is taken. Any other name is a path, and where the member goes is the
  library's answer. \<open>create_member\<close> is the check of the name; its result says how the
  group looks once the member is there.
\<close>

definition plain_name :: "string \<Rightarrow> bool" where
  "plain_name key = (key \<noteq> [] \<and> key \<noteq> ''.'' \<and> key \<noteq> ''..'' \<and> CHR ''/'' \<notin> set key)"

definition create_member ::
  "(string \<Rightarrow> h5group \<Rightarrow> error + (h5item \<Rightarrow> h5group)) \<Rightarrow> string \<Rightarrow> h5group
     \<Rightarrow> error + (h5item \<Rightarrow> h5group)" where
  "create_member at_path key g =
     (if plain_name key
      then (if key \<in> set (map fst g) then Inl ValueError else Inr (\<lambda>item. g @ [(key, item)]))
      else at_path key g)"

definition create_dataset ::
  "(string \<Rightarrow> h5group \<Rightarrow> error + (h5item \<Rightarrow> h5group)) \<Rightarrow> (ndarray \<Rightarrow> bool) \<Rightarrow> string \<Rightarrow> ndarray
     \<Rightarrow> h5group \<Rightarrow> error + h5group" where
  "create_dataset at_path accepts key a g =
     (case create_member at_path key g of
        Inl e \<Rightarrow> Inl e
      | Inr put \<Rightarrow> if \<not> accepts a then Inl TypeError else Inr (put (H5Dataset a)))"

text \<open>
  \<^verbatim>\<open>_recursively_read_group\<close> (the same in \<^verbatim>\<open>HDF5Loader\<close> and \<^verbatim>\<open>ZarrLoader\<close>): the loop over
  the keys is \<open>recursively_read_group\<close>, its body is \<open>read_item\<close>.
\<close>

fun read_item :: "h5item \<Rightarrow> pyval"
  and recursively_read_group :: "h5group \<Rightarrow> (string \<times> pyval) list" where
  "read_item (H5Group g) = PDict (recursively_read_group g)"
| "read_item (H5Dataset a) = PArray a"
| "recursively_read_group [] = []"
| "recursively_read_group ((key, item) # g) = (key, read_item item) # recursively_read_group g"

text \<open>
  The conversion of a leaf to an array, common to both writers: an array is kept, a
  list or tuple goes through \<^verbatim>\<open>np.array(value)\<close>, anything else through
  \<^verbatim>\<open>np.array([value])\<close>.
\<close>

definition to_array :: "'c extlib \<Rightarrow> pyval \<Rightarrow> error + ndarray" where
  "to_array ext v =
     (case v of
        PArray a \<Rightarrow> Inr a
      | PList xs \<Rightarrow> np_array ext v
      | PTuple xs \<Rightarrow> np_array ext v
      | _ \<Rightarrow> np_array ext (PList [v]))"

text \<open>The HDF5 writer turns an array of dtype object into an array of byte strings.\<close>

definition object_to_strings :: "'c extlib \<Rightarrow> ndarray \<Rightarrow> error + ndarray" where
  "object_to_strings ext a =
     (if array_dtype a = DObject then np_array_S ext (map (py_str ext) (array_flat a))
      else Inr a)"

text \<open>
  The dataset is created with compression first and, when that raises, without; an
  exception of the second attempt propagates.
\<close>

definition create_with_fallback ::
  "(string \<Rightarrow> h5group \<Rightarrow> error + (h5item \<Rightarrow> h5group)) \<Rightarrow> (ndarray \<Rightarrow> bool) \<Rightarrow> (ndarray \<Rightarrow> bool)
     \<Rightarrow> string \<Rightarrow> ndarray \<Rightarrow> h5group \<Rightarrow> error option \<times> h5group" where
  "create_with_fallback at_path compressed uncompressed key a g =
     (case create_dataset at_path compressed key a g of
        Inr g' \<Rightarrow> (None, g')
      | Inl _ \<Rightarrow>
          (case create_dataset at_path uncompressed key a g of
             Inr g' \<Rightarrow> (None, g')
           | Inl e \<Rightarrow> (Some e, g)))"

text \<open>
  The array a leaf is stored as: the conversion of the HDF5 writer is \<open>to_array\<close>
  followed by \<open>object_to_strings\<close>, that of the Zarr writer is \<open>to_array\<close> alone.
\<close>

definition HDF5_coerce :: "'c extlib \<Rightarrow> pyval \<Rightarrow> error + ndarray" where
  "HDF5_coerce ext v =
     (case to_array ext v of
        Inl e \<Rightarrow> Inl e
      | Inr a \<Rightarrow> object_to_strings ext a)"

definition Zarr_coerce :: "'c extlib \<Rightarrow> pyval \<Rightarrow> error + ndarray" where
  "Zarr_coerce ext v = to_array ext v"

definition HDF5_write_leaf :: "'c extlib \<Rightarrow> string \<Rightarrow> pyval \<Rightarrow> h5group \<Rightarrow> error option \<times> h5group" where
  "HDF5_write_leaf ext key v g =
     (case HDF5_coerce ext v of
        Inl e \<Rightarrow> (Some e, g)
      | Inr a \<Rightarrow>
          create_with_fallback (h5_at_path ext) (h5_accepts_gzip ext) (h5_accepts ext) key a g)"

definition Zarr_write_leaf :: "'c extlib \<Rightarrow> string \<Rightarrow> pyval \<Rightarrow> h5group \<Rightarrow> error option \<times> h5group" where
  "Zarr_write_leaf ext key v g =
     (case Zarr_coerce ext v of
        Inl e \<Rightarrow> (Some e, g)
      | Inr a \<Rightarrow>
          create_with_fallback (zarr_at_path ext) (zarr_accepts_blosc ext) (zarr_accepts ext) key a g)"

text \<open>
  \<^verbatim>\<open>_recursively_write_group\<close>, with the leaf writer as a parameter. The result is the
  group as it stands when the function returns or raises, and the exception if it
  raised: what was written before an exception stays in the store. \<open>write_items\<close> is
  the loop over \<^verbatim>\<open>data.items()\<close>, \<open>write_value\<close> its body; a subgroup is created
  (empty) before its members are written.
\<close>

fun write_value ::
    "(string \<Rightarrow> h5group \<Rightarrow> error + (h5item \<Rightarrow> h5group))
       \<Rightarrow> (string \<Rightarrow> pyval \<Rightarrow> h5group \<Rightarrow> error option \<times> h5group) \<Rightarrow> string \<Rightarrow> pyval \<Rightarrow> h5group
       \<Rightarrow> error option \<times> h5group"
  and write_items ::
    "(string \<Rightarrow> h5group \<Rightarrow> error + (h5item \<Rightarrow> h5group))
       \<Rightarrow> (string \<Rightarrow> pyval \<Rightarrow> h5group \<Rightarrow> error option \<times> h5group) \<Rightarrow> (string \<times> pyval) list \<Rightarrow> h5group
       \<Rightarrow> error option \<times> h5group" where
  "write_value at_path leaf key (PDict d) g =
     (case create_member at_path key g of
        Inl e \<Rightarrow> (Some e, g)
      | Inr put \<Rightarrow> (case write_items at_path leaf d [] of (e, sub) \<Rightarrow> (e, put (H5Group sub))))"
| "write_value at_path leaf key PNone g = leaf key PNone g"
| "write_value at_path leaf key (PBool b) g = leaf key (PBool b) g"
| "write_value at_path leaf key (PInt i) g = leaf key (PInt i) g"
| "write_value at_path leaf key (PFloat x) g = leaf key (PFloat x) g"
| "write_value at_path leaf key (PStr s) g = leaf key (PStr s) g"
| "write_value at_path leaf key (PList xs) g = leaf key (PList xs) g"
| "write_value at_path leaf key (PTuple xs) g = leaf key (PTuple xs) g"
| "write_value at_path leaf key (PArray a) g = leaf key (PArray a) g"
| "write_items at_path leaf [] g = (None, g)"
| "write_items at_path leaf ((key, v) # kvs) g =
     (case write_value at_path leaf key v g of
        (Some e, g') \<Rightarrow> (Some e, g')
      | (None, g') \<Rightarrow> write_items at_path leaf kvs g')"

text \<open>
  The entry point: \<^verbatim>\<open>data.items()\<close> raises \<^verbatim>\<open>AttributeError\<close> when \<^verbatim>\<open>data\<close> is not a
  dictionary.
\<close>

definition recursively_write_group ::
  "(string \<Rightarrow> h5group \<Rightarrow> error + (h5item \<Rightarrow> h5group))
     \<Rightarrow> (string \<Rightarrow> pyval \<Rightarrow> h5group \<Rightarrow> error option \<times> h5group) \<Rightarrow> h5group \<Rightarrow> pyval
     \<Rightarrow> error option \<times> h5group" where
  "recursively_write_group at_path leaf g data =
     (case data of PDict d \<Rightarrow> write_items at_path leaf d g | _ \<Rightarrow> (Some AttributeError, g))"

section \<open>The file system, the trace of its use, and the log\<close>

text \<open>
  The file system is a table from paths to nodes, in the order a directory scan
  enumerates them. A node is a plain directory, an HDF5 file or a zarr store (each
  with the group it holds), or a byte file. The current directory is the implicit
  root: top-level names live in it and it is not an entry of the table. Every access
  to the file system is appended to \<open>trace\<close>. \<open>logged\<close> holds the records emitted
  through the logger of \<^verbatim>\<open>rdm.core\<close>; the loggers of the codec modules are not tracked.
\<close>

datatype 'c node = Dir | H5File h5group | ZarrStore h5group | Bytes 'c

datatype io_event =
  IOExists path | IOIsFile path | IOOpenRead path | IOOpenWrite path | IOMkdir path | IOGlob path string

datatype log_event = LogConverted path path | LogFailed path error

record 'c world =
  files :: "(path \<times> 'c node) list"
  trace :: "io_event list"
  logged :: "log_event list"

definition node_at :: "'c world \<Rightarrow> path \<Rightarrow> 'c node option" where
  "node_at w p = map_of (files w) p"

fun is_dir_node :: "'c node \<Rightarrow> bool" where
  "is_dir_node Dir = True"
| "is_dir_node (ZarrStore g) = True"
| "is_dir_node (H5File g) = False"
| "is_dir_node (Bytes c) = False"

definition record_io :: "io_event \<Rightarrow> 'c world \<Rightarrow> 'c world" where
  "record_io e w = w\<lparr>trace := trace w @ [e]\<rparr>"

fun put_node :: "path \<Rightarrow> 'c node \<Rightarrow> (path \<times> 'c node) list \<Rightarrow> (path \<times> 'c node) list" where
  "put_node p n [] = [(p, n)]"
| "put_node p n ((q, m) # r) = (if q = p then (p, n) # r else (q, m) # put_node p n r)"

definition write_node :: "path \<Rightarrow> 'c node \<Rightarrow> 'c world \<Rightarrow> 'c world" where
  "write_node p n w = w\<lparr>files := put_node p n (files w)\<rparr>"

text \<open>\<^verbatim>\<open>Path.exists()\<close> and \<^verbatim>\<open>Path.is_file()\<close>.\<close>

definition path_exists :: "path \<Rightarrow> 'c world \<Rightarrow> bool \<times> 'c world" where
  "path_exists p w = (node_at w p \<noteq> None, record_io (IOExists p) w)"

definition path_is_file :: "path \<Rightarrow> 'c world \<Rightarrow> bool \<times> 'c world" where
  "path_is_file p w =
     ((case node_at w p of Some n \<Rightarrow> \<not> is_dir_node n | None \<Rightarrow> False),
      record_io (IOIsFile p) w)"

text \<open>
  \<^verbatim>\<open>Path.mkdir(parents=True, exist_ok=True)\<close>: every missing ancestor and the path
  itself become directories; it raises when one of them is there and is not a
  directory.
\<close>

fun mkdirs :: "path list \<Rightarrow> 'c world \<Rightarrow> (error + unit) \<times> 'c world" where
  "mkdirs [] w = (Inr (), w)"
| "mkdirs (q # qs) w =
     (case node_at w q of
        None \<Rightarrow> mkdirs qs (write_node q Dir w)
      | Some n \<Rightarrow> if is_dir_node n then mkdirs qs w else (Inl (FileExistsError q), w))"

definition ancestors_and_self :: "path \<Rightarrow> path list" where
  "ancestors_and_self p = map (\<lambda>n. take n p) [1..<Suc (length p)]"

definition path_mkdir :: "path \<Rightarrow> 'c world \<Rightarrow> (error + unit) \<times> 'c world" where
  "path_mkdir p w = mkdirs (ancestors_and_self p) (record_io (IOMkdir p) w)"

text \<open>
  Opening a regular file for writing creates or truncates it; it raises when the
  path is a directory or when its parent directory is missing.
\<close>

definition can_write_file :: "'c world \<Rightarrow> path \<Rightarrow> bool" where
  "can_write_file w p =
     (p \<noteq> []
      \<and> (butlast p = [] \<or> (case node_at w (butlast p) of Some n \<Rightarrow> is_dir_node n | None \<Rightarrow> False))
      \<and> (case node_at w p of Some n \<Rightarrow> \<not> is_dir_node n | None \<Rightarrow> True))"

definition read_bytes :: "path \<Rightarrow> 'c world \<Rightarrow> (error + 'c) \<times> 'c world" where
  "read_bytes p w =
     ((case node_at w p of
         Some (Bytes c) \<Rightarrow> Inr c
       | Some n \<Rightarrow> Inl OSError
       | None \<Rightarrow> Inl (FileNotFoundError p)),
      record_io (IOOpenRead p) w)"

definition write_bytes :: "path \<Rightarrow> 'c \<Rightarrow> 'c world \<Rightarrow> (error + unit) \<times> 'c world" where
  "write_bytes p c w =
     (if can_write_file w p then (Inr (), write_node p (Bytes c) (record_io (IOOpenWrite p) w))
      else (Inl OSError, record_io (IOOpenWrite p) w))"

text \<open>\<^verbatim>\<open>h5py.File(path, "r")\<close> and \<^verbatim>\<open>h5py.File(path, "w")\<close>.\<close>

definition h5_open_r :: "path \<Rightarrow> 'c world \<Rightarrow> (error + h5group) \<times> 'c world" where
  "h5_open_r p w =
     ((case node_at w p of Some (H5File g) \<Rightarrow> Inr g | _ \<Rightarrow> Inl OSError),
      record_io (IOOpenRead p) w)"

definition h5_open_w :: "path \<Rightarrow> 'c world \<Rightarrow> (error + unit) \<times> 'c world" where
  "h5_open_w p w =
     (if can_write_file w p then (Inr (), write_node p (H5File []) (record_io (IOOpenWrite p) w))
      else (Inl OSError, record_io (IOOpenWrite p) w))"

text \<open>
  \<^verbatim>\<open>zarr.open(path, mode="r")\<close> and \<^verbatim>\<open>zarr.open(path, mode="w")\<close>. A store is a directory:
  opening for writing raises when the path is a regular file, creates the missing
  ancestors, and empties what was below the path.
\<close>

definition zarr_open_r :: "path \<Rightarrow> 'c world \<Rightarrow> (error + h5group) \<times> 'c world" where
  "zarr_open_r p w =
     ((case node_at w p of Some (ZarrStore g) \<Rightarrow> Inr g | _ \<Rightarrow> Inl OSError),
      record_io (IOOpenRead p) w)"

definition strictly_below :: "path \<Rightarrow> path \<Rightarrow> bool" where
  "strictly_below d q = (length d < length q \<and> take (length d) q = d)"

definition remove_below :: "path \<Rightarrow> 'c world \<Rightarrow> 'c world" where
  "remove_below p w = w\<lparr>files := filter (\<lambda>(q, n). \<not> strictly_below p q) (files w)\<rparr>"

definition zarr_open_w :: "path \<Rightarrow> 'c world \<Rightarrow> (error + unit) \<times> 'c world" where
  "zarr_open_w p w =
     (if p = [] then (Inl OSError, record_io (IOOpenWrite p) w)
      else
        (case mkdirs (ancestors_and_self (butlast p)) (record_io (IOOpenWrite p) w) of
           (Inl e, w1) \<Rightarrow> (Inl e, w1)
         | (Inr u, w1) \<Rightarrow>
             (if (case node_at w1 p of Some n \<Rightarrow> is_dir_node n | None \<Rightarrow> True)
              then (Inr (), write_node p (ZarrStore []) (remove_below p w1))
              else (Inl OSError, w1))))"

text \<open>
  \<^verbatim>\<open>h5py.File(path, mode)\<close> for the mode a loader was constructed with, as far as a
  reader of the file is concerned: \<^verbatim>\<open>"r"\<close> and \<^verbatim>\<open>"r+"\<close> open the file that is there,
  \<^verbatim>\<open>"w"\<close> creates or truncates it, \<^verbatim>\<open>"a"\<close> opens it or creates it, \<^verbatim>\<open>"w-"\<close> and \<^verbatim>\<open>"x"\<close> create
  it and raise when it exists; any other mode is refused. The group read from a file
  just created is empty.
\<close>

definition h5_create :: "path \<Rightarrow> 'c world \<Rightarrow> (error + h5group) \<times> 'c world" where
  "h5_create p w =
     (case h5_open_w p w of
        (Inl e, w1) \<Rightarrow> (Inl e, w1)
      | (Inr u, w1) \<Rightarrow> (Inr [], w1))"

definition h5_open :: "string \<Rightarrow> path \<Rightarrow> 'c world \<Rightarrow> (error + h5group) \<times> 'c world" where
  "h5_open mode p w =
     (if mode = ''r'' \<or> mode = ''r+'' then h5_open_r p w
      else if mode = ''w'' then h5_create p w
      else if mode = ''a'' then (if node_at w p = None then h5_create p w else h5_open_r p w)
      else if mode = ''w-'' \<or> mode = ''x''
      then (if node_at w p = None then h5_create p w
            else (Inl (FileExistsError p), record_io (IOOpenWrite p) w))
      else (Inl ValueError, w))"

text \<open>
  \<^verbatim>\<open>zarr.open(path, mode=mode)\<close>: \<^verbatim>\<open>"w"\<close> creates the store or empties it, \<^verbatim>\<open>"a"\<close> opens
  the store or makes one of the path, \<^verbatim>\<open>"w-"\<close> and \<^verbatim>\<open>"x"\<close> make one and raise when a store
  is there; under every other mode the store that is there is opened.
\<close>

definition zarr_create :: "path \<Rightarrow> 'c world \<Rightarrow> (error + h5group) \<times> 'c world" where
  "zarr_create p w =
     (case zarr_open_w p w of
        (Inl e, w1) \<Rightarrow> (Inl e, w1)
      | (Inr u, w1) \<Rightarrow> (Inr [], w1))"

definition zarr_init :: "path \<Rightarrow> 'c world \<Rightarrow> (error + h5group) \<times> 'c world" where
  "zarr_init p w =
     (case node_at w p of
        None \<Rightarrow> zarr_create p w
      | Some Dir \<Rightarrow> (Inr [], write_node p (ZarrStore []) (record_io (IOOpenWrite p) w))
      | Some n \<Rightarrow> (Inl OSError, record_io (IOOpenWrite p) w))"

definition zarr_open :: "string \<Rightarrow> path \<Rightarrow> 'c world \<Rightarrow> (error + h5group) \<times> 'c world" where
  "zarr_open mode p w =
     (if mode = ''w'' then zarr_create p w
      else if mode = ''a''
      then (case node_at w p of Some (ZarrStore g) \<Rightarrow> zarr_open_r p w | _ \<Rightarrow> zarr_init p w)
      else if mode = ''w-'' \<or> mode = ''x'' then zarr_init p w
      else zarr_open_r p w)"

section \<open>The loaders\<close>

text \<open>
  Of the keyword arguments that \<^verbatim>\<open>DataManager.load\<close>, \<^verbatim>\<open>save\<close>, \<^verbatim>\<open>convert\<close> and
  \<^verbatim>\<open>batch_convert\<close> forward to the loader constructor, the loaders read one: \<^verbatim>\<open>mode\<close>,
  which \<^verbatim>\<open>HDF5Loader\<close> and \<^verbatim>\<open>ZarrLoader\<close> store and open the file with in \<^verbatim>\<open>load\<close>; the others
  are stored by \<^verbatim>\<open>BaseDataLoader.__init__\<close> and never looked at. So the keyword arguments
  of a call are the mode it passes, a string, if it passes one, and the mode of a loader
  is that string or the default \<^verbatim>\<open>"r"\<close>. A loader object is the path it is bound to,
  with, for these two classes, its mode. \<^verbatim>\<open>BaseDataLoader.__init__\<close> stores the path and
  calls \<^verbatim>\<open>_validate_path\<close>; every loader class of the repository runs it.
\<close>

type_synonym kwargs = "string option"

definition mode_of :: "kwargs \<Rightarrow> string" where
  "mode_of kw = (case kw of Some m \<Rightarrow> m | None \<Rightarrow> ''r'')"

definition validate_path :: "path \<Rightarrow> 'c world \<Rightarrow> (error + unit) \<times> 'c world" where
  "validate_path p w =
     (case path_exists p w of
        (True, w1) \<Rightarrow> (Inr (), w1)
      | (False, w1) \<Rightarrow> (Inl (FileNotFoundError p), w1))"

definition BaseDataLoader_init :: "path \<Rightarrow> 'c world \<Rightarrow> (error + path) \<times> 'c world" where
  "BaseDataLoader_init p w =
     (case validate_path p w of
        (Inl e, w1) \<Rightarrow> (Inl e, w1)
      | (Inr u, w1) \<Rightarrow> (Inr p, w1))"

text \<open>\<^verbatim>\<open>save_path = Path(path) if path else self.path\<close>.\<close>

definition save_target :: "path \<Rightarrow> path option \<Rightarrow> path" where
  "save_target self popt = (case popt of Some q \<Rightarrow> q | None \<Rightarrow> self)"

subsection \<open>HDF5 and Zarr\<close>

text \<open>
  Opening the target for writing, writing the data into the empty group, and leaving
  the target with what was written: the body of the \<^verbatim>\<open>try\<close> block of \<^verbatim>\<open>save\<close> and of
  \<^verbatim>\<open>validate\<close>. The result is the exception that left the block, if any.
\<close>

definition tree_write ::
  "(path \<Rightarrow> 'c world \<Rightarrow> (error + unit) \<times> 'c world) \<Rightarrow> (h5group \<Rightarrow> 'c node)
     \<Rightarrow> (string \<Rightarrow> h5group \<Rightarrow> error + (h5item \<Rightarrow> h5group))
     \<Rightarrow> (string \<Rightarrow> pyval \<Rightarrow> h5group \<Rightarrow> error option \<times> h5group)
     \<Rightarrow> path \<Rightarrow> pyval \<Rightarrow> 'c world \<Rightarrow> error option \<times> 'c world" where
  "tree_write open_w mk at_path leaf p data w =
     (case open_w p w of
        (Inl e, w1) \<Rightarrow> (Some e, w1)
      | (Inr u, w1) \<Rightarrow>
          (case recursively_write_group at_path leaf [] data of
             (eo, g) \<Rightarrow> (eo, write_node p (mk g) w1)))"

definition HDF5Loader_load :: "string \<Rightarrow> path \<Rightarrow> 'c world \<Rightarrow> (error + pyval) \<times> 'c world" where
  "HDF5Loader_load mode self w =
     (case h5_open mode self w of
        (Inl e, w1) \<Rightarrow> (Inl DataValidationError, w1)
      | (Inr g, w1) \<Rightarrow> (Inr (PDict (recursively_read_group g)), w1))"

definition HDF5Loader_save ::
  "'c extlib \<Rightarrow> path \<Rightarrow> pyval \<Rightarrow> path option \<Rightarrow> 'c world \<Rightarrow> (error + unit) \<times> 'c world" where
  "HDF5Loader_save ext self data popt w =
     (case path_mkdir (path_parent (save_target self popt)) w of
        (Inl e, w1) \<Rightarrow> (Inl e, w1)
      | (Inr u, w1) \<Rightarrow>
          (case tree_write h5_open_w H5File (h5_at_path ext) (HDF5_write_leaf ext) (save_target self popt) data w1 of
             (Some e, w2) \<Rightarrow> (Inl DataValidationError, w2)
           | (None, w2) \<Rightarrow> (Inr (), w2)))"

definition HDF5Loader_validate ::
  "'c extlib \<Rightarrow> path \<Rightarrow> pyval \<Rightarrow> 'c world \<Rightarrow> (error + bool) \<times> 'c world" where
  "HDF5Loader_validate ext self data w =
     (case tree_write h5_open_w H5File (h5_at_path ext) (HDF5_write_leaf ext) self data w of
        (Some e, w1) \<Rightarrow> (Inr False, w1)
      | (None, w1) \<Rightarrow> (Inr True, w1))"

definition ZarrLoader_load :: "string \<Rightarrow> path \<Rightarrow> 'c world \<Rightarrow> (error + pyval) \<times> 'c world" where
  "ZarrLoader_load mode self w =
     (case zarr_open mode self w of
        (Inl e, w1) \<Rightarrow> (Inl DataValidationError, w1)
      | (Inr g, w1) \<Rightarrow> (Inr (PDict (recursively_read_group g)), w1))"

definition ZarrLoader_save ::
  "'c extlib \<Rightarrow> path \<Rightarrow> pyval \<Rightarrow> path option \<Rightarrow> 'c world \<Rightarrow> (error + unit) \<times> 'c world" where
  "ZarrLoader_save ext self data popt w =
     (case path_mkdir (path_parent (save_target self popt)) w of
        (Inl e, w1) \<Rightarrow> (Inl e, w1)
      | (Inr u, w1) \<Rightarrow>
          (case tree_write zarr_open_w ZarrStore (zarr_at_path ext) (Zarr_write_leaf ext) (save_target self popt) data w1 of
             (Some e, w2) \<Rightarrow> (Inl DataValidationError, w2)
           | (None, w2) \<Rightarrow> (Inr (), w2)))"

definition ZarrLoader_validate ::
  "'c extlib \<Rightarrow> path \<Rightarrow> pyval \<Rightarrow> 'c world \<Rightarrow> (error + bool) \<times> 'c world" where
  "ZarrLoader_validate ext self data w =
     (case tree_write zarr_open_w ZarrStore (zarr_at_path ext) (Zarr_write_leaf ext) self data w of
        (Some e, w1) \<Rightarrow> (Inr False, w1)
      | (None, w1) \<Rightarrow> (Inr True, w1))"

subsection \<open>String and path helpers\<close>

definition starts_with :: "string \<Rightarrow> string \<Rightarrow> bool" where
  "starts_with s pre = (take (length pre) s = pre)"

definition ends_with :: "string \<Rightarrow> string \<Rightarrow> bool" where
  "ends_with s suf = (length suf \<le> length s \<and> drop (length s - length suf) s = suf)"

fun is_substring :: "string \<Rightarrow> string \<Rightarrow> bool" where
  "is_substring k [] = (k = [])"
| "is_substring k (c # cs) = (starts_with (c # cs) k \<or> is_substring k cs)"

text \<open>
  \<^verbatim>\<open>PurePath.with_suffix\<close>: it raises \<^verbatim>\<open>ValueError\<close> on a suffix that holds a separator,
  does not start with a dot or is a lone dot, and on a path with an empty name.
\<close>

definition with_suffix :: "path \<Rightarrow> string \<Rightarrow> error + path" where
  "with_suffix p sfx =
     (if CHR ''/'' \<in> set sfx then Inl ValueError
      else if (sfx \<noteq> [] \<and> \<not> starts_with sfx ''.'') \<or> sfx = ''.'' then Inl ValueError
      else if path_name p = [] then Inl ValueError
      else Inr (butlast p @
             [take (length (path_name p) - length (path_suffix p)) (path_name p) @ sfx]))"

text \<open>\<^verbatim>\<open>PurePath.relative_to\<close>: it raises \<^verbatim>\<open>ValueError\<close> when the path is not below the other.\<close>

definition relative_to :: "path \<Rightarrow> path \<Rightarrow> error + path" where
  "relative_to p d = (if take (length d) p = d then Inr (drop (length d) p) else Inl ValueError)"

text \<open>
  The Python operators the validation functions apply to a value of unknown type:
  \<^verbatim>\<open>key in value\<close> and \<^verbatim>\<open>value[key]\<close> with a string key, and the number of elements an
  iteration over the value yields.
\<close>

definition py_contains :: "string \<Rightarrow> pyval \<Rightarrow> error + bool" where
  "py_contains k v =
     (case v of
        PDict d \<Rightarrow> Inr (k \<in> set (map fst d))
      | PList xs \<Rightarrow> Inr (PStr k \<in> set xs)
      | PTuple xs \<Rightarrow> Inr (PStr k \<in> set xs)
      | PStr s \<Rightarrow> Inr (is_substring k s)
      | PArray a \<Rightarrow> Inr (SStr k \<in> set (array_flat a))
      | _ \<Rightarrow> Inl TypeError)"

definition py_getitem :: "pyval \<Rightarrow> string \<Rightarrow> error + pyval" where
  "py_getitem v k =
     (case v of
        PDict d \<Rightarrow> (case map_of d k of Some x \<Rightarrow> Inr x | None \<Rightarrow> Inl KeyError)
      | _ \<Rightarrow> Inl TypeError)"

definition py_iter_len :: "pyval \<Rightarrow> error + nat" where
  "py_iter_len v =
     (case v of
        PList xs \<Rightarrow> Inr (length xs)
      | PTuple xs \<Rightarrow> Inr (length xs)
      | PDict d \<Rightarrow> Inr (length d)
      | PStr s \<Rightarrow> Inr (length s)
      | PArray (NDArray dt sh xs) \<Rightarrow> (case sh of [] \<Rightarrow> Inl TypeError | n # r \<Rightarrow> Inr n)
      | _ \<Rightarrow> Inl TypeError)"

subsection \<open>JSON, pickle and numpy files\<close>

text \<open>
  Writing a byte file inside \<^verbatim>\<open>try\<close>: the file is opened (created or truncated), the
  encoder writes what it can, and any exception becomes \<^verbatim>\<open>DataValidationError\<close>.
\<close>

definition write_encoded :: "'c \<times> error option \<Rightarrow> path \<Rightarrow> 'c world \<Rightarrow> (error + unit) \<times> 'c world" where
  "write_encoded enc p w =
     (case write_bytes p (fst enc) w of
        (Inl e, w1) \<Rightarrow> (Inl DataValidationError, w1)
      | (Inr u, w1) \<Rightarrow>
          (case snd enc of None \<Rightarrow> (Inr (), w1) | Some e \<Rightarrow> (Inl DataValidationError, w1)))"

definition read_decoded :: "('c \<Rightarrow> error + 'a) \<Rightarrow> path \<Rightarrow> 'c world \<Rightarrow> (error + 'a) \<times> 'c world" where
  "read_decoded dec p w =
     (case read_bytes p w of
        (Inl e, w1) \<Rightarrow> (Inl DataValidationError, w1)
      | (Inr c, w1) \<Rightarrow>
          (case dec c of Inl e \<Rightarrow> (Inl DataValidationError, w1) | Inr v \<Rightarrow> (Inr v, w1)))"

definition JSONLoader_load :: "'c extlib \<Rightarrow> path \<Rightarrow> 'c world \<Rightarrow> (error + pyval) \<times> 'c world" where
  "JSONLoader_load ext self w = read_decoded (json_load ext) self w"

definition JSONLoader_save ::
  "'c extlib \<Rightarrow> path \<Rightarrow> pyval \<Rightarrow> path option \<Rightarrow> 'c world \<Rightarrow> (error + unit) \<times> 'c world" where
  "JSONLoader_save ext self data popt w =
     (case path_mkdir (path_parent (save_target self popt)) w of
        (Inl e, w1) \<Rightarrow> (Inl e, w1)
      | (Inr u, w1) \<Rightarrow> write_encoded (json_dump ext data) (save_target self popt) w1)"

definition JSONLoader_validate ::
  "'c extlib \<Rightarrow> path \<Rightarrow> pyval \<Rightarrow> 'c world \<Rightarrow> (error + bool) \<times> 'c world" where
  "JSONLoader_validate ext self data w =
     (case snd (json_dump ext data) of None \<Rightarrow> (Inr True, w) | Some e \<Rightarrow> (Inr False, w))"

definition PickleLoader_load :: "'c extlib \<Rightarrow> path \<Rightarrow> 'c world \<Rightarrow> (error + pyval) \<times> 'c world" where
  "PickleLoader_load ext self w =
     (case read_decoded (pickle_load ext) self w of
        (Inl e, w1) \<Rightarrow> (Inl e, w1)
      | (Inr v, w1) \<Rightarrow> (Inr (case v of PDict d \<Rightarrow> v | _ \<Rightarrow> PDict [(''data'', v)]), w1))"

definition PickleLoader_save ::
  "'c extlib \<Rightarrow> path \<Rightarrow> pyval \<Rightarrow> path option \<Rightarrow> 'c world \<Rightarrow> (error + unit) \<times> 'c world" where
  "PickleLoader_save ext self data popt w =
     (case path_mkdir (path_parent (save_target self popt)) w of
        (Inl e, w1) \<Rightarrow> (Inl e, w1)
      | (Inr u, w1) \<Rightarrow> write_encoded (pickle_dump ext data) (save_target self popt) w1)"

definition PickleLoader_validate ::
  "'c extlib \<Rightarrow> path \<Rightarrow> pyval \<Rightarrow> 'c world \<Rightarrow> (error + bool) \<times> 'c world" where
  "PickleLoader_validate ext self data w =
     (case snd (pickle_dump ext data) of None \<Rightarrow> (Inr True, w) | Some e \<Rightarrow> (Inr False, w))"

definition NumPyLoader_load :: "'c extlib \<Rightarrow> path \<Rightarrow> 'c world \<Rightarrow> (error + pyval) \<times> 'c world" where
  "NumPyLoader_load ext self w =
     (if path_suffix self = ''.npz''
      then (case read_decoded (np_load_npz ext) self w of
              (Inl e, w1) \<Rightarrow> (Inl e, w1)
            | (Inr d, w1) \<Rightarrow> (Inr (PDict d), w1))
      else (case read_decoded (np_load ext) self w of
              (Inl e, w1) \<Rightarrow> (Inl e, w1)
            | (Inr a, w1) \<Rightarrow> (Inr (PDict [(''data'', PArray a)]), w1)))"

text \<open>
  \<^verbatim>\<open>np.save\<close> and \<^verbatim>\<open>np.savez_compressed\<close> append their extension to a file name that does
  not end with it.
\<close>

definition np_file :: "path \<Rightarrow> string \<Rightarrow> path" where
  "np_file p e = (if ends_with (path_name p) e then p else butlast p @ [path_name p @ e])"

text \<open>
  The \<^verbatim>\<open>try\<close> block of \<^verbatim>\<open>NumPyLoader.save\<close>. \<^verbatim>\<open>**data\<close>, \<^verbatim>\<open>len(data)\<close> and \<^verbatim>\<open>data.values()\<close>
  raise on a value that is not a dictionary, before anything is written.
\<close>

definition NumPyLoader_save ::
  "'c extlib \<Rightarrow> path \<Rightarrow> pyval \<Rightarrow> path option \<Rightarrow> 'c world \<Rightarrow> (error + unit) \<times> 'c world" where
  "NumPyLoader_save ext self data popt w =
     (case path_mkdir (path_parent (save_target self popt)) w of
        (Inl e, w1) \<Rightarrow> (Inl e, w1)
      | (Inr u, w1) \<Rightarrow>
          (case data of
             PDict d \<Rightarrow>
               (if path_suffix (save_target self popt) = ''.npz''
                then write_encoded (np_savez ext d) (np_file (save_target self popt) ''.npz'') w1
                else if length d = 1
                then write_encoded (np_save ext (snd (hd d))) (np_file (save_target self popt) ''.npy'') w1
                else (case with_suffix (save_target self popt) ''.npz'' of
                        Inl e \<Rightarrow> (Inl DataValidationError, w1)
                      | Inr q \<Rightarrow> write_encoded (np_savez ext d) (np_file q ''.npz'') w1))
           | _ \<Rightarrow> (Inl DataValidationError, w1)))"

definition NumPyLoader_validate ::
  "'c extlib \<Rightarrow> path \<Rightarrow> pyval \<Rightarrow> 'c world \<Rightarrow> (error + bool) \<times> 'c world" where
  "NumPyLoader_validate ext self data w =
     (case data of
        PDict d \<Rightarrow>
          (Inr (list_all (\<lambda>(k, v). case v of PArray a \<Rightarrow> True
                                   | _ \<Rightarrow> (case np_array ext v of Inr a \<Rightarrow> True | Inl e \<Rightarrow> False)) d), w)
      | _ \<Rightarrow> (Inr False, w))"

subsection \<open>RLDS\<close>

text \<open>
  \<^verbatim>\<open>_parse_tf_example\<close> is a placeholder that returns the same dictionary for every
  record, so a load depends on the file only through the number of its records.
\<close>

definition RLDSLoader_load :: "'c extlib \<Rightarrow> path \<Rightarrow> 'c world \<Rightarrow> (error + pyval) \<times> 'c world" where
  "RLDSLoader_load ext self w =
     (case read_decoded (tf_records ext) self w of
        (Inl e, w1) \<Rightarrow> (Inl e, w1)
      | (Inr n, w1) \<Rightarrow>
          (Inr (PDict
             [(''episodes'', PList (replicate n (PDict [(''steps'', PList []), (''metadata'', PDict [])]))),
              (''metadata'', PDict [(''num_episodes'', PInt (int n)), (''format'', PStr ''rlds'')])]),
           w1))"

definition convert_to_rlds_format :: "pyval \<Rightarrow> error + pyval" where
  "convert_to_rlds_format data =
     (case py_contains ''episodes'' data of
        Inl e \<Rightarrow> Inl e
      | Inr True \<Rightarrow> py_getitem data ''episodes''
      | Inr False \<Rightarrow> Inr (PList [data]))"

text \<open>
  The writer is opened after the conversion; one placeholder record is written per
  element of the episode sequence, and an exception of the iteration leaves the file
  with no record.
\<close>

definition RLDSLoader_save ::
  "'c extlib \<Rightarrow> path \<Rightarrow> pyval \<Rightarrow> path option \<Rightarrow> 'c world \<Rightarrow> (error + unit) \<times> 'c world" where
  "RLDSLoader_save ext self data popt w =
     (case path_mkdir (path_parent (save_target self popt)) w of
        (Inl e, w1) \<Rightarrow> (Inl e, w1)
      | (Inr u, w1) \<Rightarrow>
          (case convert_to_rlds_format data of
             Inl e \<Rightarrow> (Inl DataValidationError, w1)
           | Inr eps \<Rightarrow>
               (case py_iter_len eps of
                  Inl e \<Rightarrow> write_encoded (tf_write ext 0, Some e) (save_target self popt) w1
                | Inr n \<Rightarrow> write_encoded (tf_write ext n, None) (save_target self popt) w1)))"

definition RLDS_validate_body :: "pyval \<Rightarrow> error + bool" where
  "RLDS_validate_body data =
     (case py_contains ''steps'' data of
        Inl e \<Rightarrow> Inl e
      | Inr False \<Rightarrow> Inr False
      | Inr True \<Rightarrow>
          (case py_getitem data ''steps'' of
             Inl e \<Rightarrow> Inl e
           | Inr steps \<Rightarrow> Inr (case steps of PList xs \<Rightarrow> True | PDict d \<Rightarrow> True | _ \<Rightarrow> False)))"

definition RLDSLoader_validate ::
  "'c extlib \<Rightarrow> path \<Rightarrow> pyval \<Rightarrow> 'c world \<Rightarrow> (error + bool) \<times> 'c world" where
  "RLDSLoader_validate ext self data w =
     (case RLDS_validate_body data of Inl e \<Rightarrow> (Inr False, w) | Inr b \<Rightarrow> (Inr b, w))"

subsection \<open>LeRobot\<close>

text \<open>\<^verbatim>\<open>self.path.glob("episode_*.json")\<close>: the entries directly in the directory whose name fits.\<close>

definition is_episode_file :: "string \<Rightarrow> bool" where
  "is_episode_file nm =
     (length ''episode_.json'' \<le> length nm \<and> starts_with nm ''episode_'' \<and> ends_with nm ''.json'')"

definition glob_episodes :: "path \<Rightarrow> 'c world \<Rightarrow> path list \<times> 'c world" where
  "glob_episodes d w =
     (filter (\<lambda>q. butlast q = d \<and> q \<noteq> [] \<and> is_episode_file (path_name q)) (map fst (files w)),
      record_io (IOGlob d ''episode_*.json'') w)"

fun load_episode_files :: "'c extlib \<Rightarrow> path list \<Rightarrow> 'c world \<Rightarrow> (error + pyval list) \<times> 'c world" where
  "load_episode_files ext [] w = (Inr [], w)"
| "load_episode_files ext (q # qs) w =
     (case read_bytes q w of
        (Inl e, w1) \<Rightarrow> (Inl e, w1)
      | (Inr c, w1) \<Rightarrow>
          (case json_load ext c of
             Inl e \<Rightarrow> (Inl e, w1)
           | Inr v \<Rightarrow>
               (case load_episode_files ext qs w1 of
                  (Inl e, w2) \<Rightarrow> (Inl e, w2)
                | (Inr vs, w2) \<Rightarrow> (Inr (v # vs), w2))))"

definition LeRobotLoader_load :: "'c extlib \<Rightarrow> path \<Rightarrow> 'c world \<Rightarrow> (error + pyval) \<times> 'c world" where
  "LeRobotLoader_load ext self w =
     (case path_is_file self w of
        (True, w1) \<Rightarrow>
          (if path_suffix self = ''.json'' then read_decoded (json_load ext) self w1
           else (Inl DataValidationError, w1))
      | (False, w1) \<Rightarrow>
          (case glob_episodes self w1 of
             (qs, w2) \<Rightarrow>
               (case load_episode_files ext qs w2 of
                  (Inl e, w3) \<Rightarrow> (Inl DataValidationError, w3)
                | (Inr eps, w3) \<Rightarrow>
                    (Inr (PDict
                       [(''episodes'', PList eps),
                        (''metadata'', PDict [(''num_episodes'', PInt (int (length eps))),
                                              (''format'', PStr ''lerobot'')])]),
                     w3))))"

definition convert_to_lerobot_format :: "pyval \<Rightarrow> error + pyval" where
  "convert_to_lerobot_format data =
     (case py_contains ''episodes'' data of
        Inl e \<Rightarrow> Inl e
      | Inr True \<Rightarrow> Inr data
      | Inr False \<Rightarrow>
          Inr (PDict [(''episodes'', PList [data]),
                      (''metadata'', PDict [(''num_episodes'', PInt 1), (''format'', PStr ''lerobot'')])]))"

definition LeRobotLoader_save ::
  "'c extlib \<Rightarrow> path \<Rightarrow> pyval \<Rightarrow> path option \<Rightarrow> 'c world \<Rightarrow> (error + unit) \<times> 'c world" where
  "LeRobotLoader_save ext self data popt w =
     (case path_mkdir (path_parent (save_target self popt)) w of
        (Inl e, w1) \<Rightarrow> (Inl e, w1)
      | (Inr u, w1) \<Rightarrow>
          (case convert_to_lerobot_format data of
             Inl e \<Rightarrow> (Inl DataValidationError, w1)
           | Inr v \<Rightarrow> write_encoded (json_dump ext v) (save_target self popt) w1))"

definition validate_episode :: "pyval \<Rightarrow> error + bool" where
  "validate_episode episode =
     (case py_contains ''episode_id'' episode of
        Inl e \<Rightarrow> Inl e
      | Inr False \<Rightarrow> Inr False
      | Inr True \<Rightarrow>
          (case py_contains ''steps'' episode of
             Inl e \<Rightarrow> Inl e
           | Inr False \<Rightarrow> Inr False
           | Inr True \<Rightarrow>
               (case py_getitem episode ''steps'' of
                  Inl e \<Rightarrow> Inl e
                | Inr steps \<Rightarrow> Inr (case steps of PList xs \<Rightarrow> True | _ \<Rightarrow> False))))"

fun validate_episodes :: "pyval list \<Rightarrow> error + bool" where
  "validate_episodes [] = Inr True"
| "validate_episodes (x # xs) =
     (case validate_episode x of
        Inl e \<Rightarrow> Inl e
      | Inr False \<Rightarrow> Inr False
      | Inr True \<Rightarrow> validate_episodes xs)"

definition LeRobot_validate_body :: "pyval \<Rightarrow> error + bool" where
  "LeRobot_validate_body data =
     (case py_contains ''episodes'' data of
        Inl e \<Rightarrow> Inl e
      | Inr False \<Rightarrow> Inr False
      | Inr True \<Rightarrow>
          (case py_getitem data ''episodes'' of
             Inl e \<Rightarrow> Inl e
           | Inr (PList eps) \<Rightarrow> validate_episodes eps
           | Inr v \<Rightarrow> Inr False))"

definition LeRobotLoader_validate ::
  "'c extlib \<Rightarrow> path \<Rightarrow> pyval \<Rightarrow> 'c world \<Rightarrow> (error + bool) \<times> 'c world" where
  "LeRobotLoader_validate ext self data w =
     (case LeRobot_validate_body data of Inl e \<Rightarrow> (Inr False, w) | Inr b \<Rightarrow> (Inr b, w))"

section \<open>The data manager\<close>

text \<open>
  The loader and converter classes of \<^verbatim>\<open>rdm.formats\<close> form a closed set; the registry maps
  a format to one of them. A class registered from outside the repository is not in
  the model. A format with no entry is one for which \<^verbatim>\<open>self._loaders.get\<close> returns
  nothing usable (no entry, or an entry that is not a class).
\<close>

datatype loader_class =
  HDF5Loader | ZarrLoader | RLDSLoader | LeRobotLoader | JSONLoader | PickleLoader | NumPyLoader

datatype converter_class =
  HDF5Converter | ZarrConverter | RLDSConverter | LeRobotConverter | JSONConverter
  | PickleConverter | NumPyConverter

record DataManager =
  loaders :: "FormatType \<Rightarrow> loader_class option"
  converters :: "FormatType \<times> FormatType \<Rightarrow> converter_class option"

definition register_loader :: "DataManager \<Rightarrow> FormatType \<Rightarrow> loader_class \<Rightarrow> DataManager" where
  "register_loader dm format_type loader = dm\<lparr>loaders := (loaders dm)(format_type \<mapsto> loader)\<rparr>"

definition register_converter ::
  "DataManager \<Rightarrow> FormatType \<Rightarrow> FormatType \<Rightarrow> converter_class \<Rightarrow> DataManager" where
  "register_converter dm source_format target_format converter =
     dm\<lparr>converters := (converters dm)((source_format, target_format) \<mapsto> converter)\<rparr>"

definition register_default_loaders :: "DataManager \<Rightarrow> DataManager" where
  "register_default_loaders dm =
     register_loader (register_loader (register_loader (register_loader
       (register_loader (register_loader (register_loader dm HDF5 HDF5Loader) ZARR ZarrLoader)
          RLDS RLDSLoader) LEROBOT LeRobotLoader) JSON JSONLoader) PICKLE PickleLoader)
       NUMPY NumPyLoader"

definition converter_formats :: "(FormatType \<times> converter_class) list" where
  "converter_formats =
     [(HDF5, HDF5Converter), (ZARR, ZarrConverter), (RLDS, RLDSConverter),
      (LEROBOT, LeRobotConverter), (JSON, JSONConverter), (PICKLE, PickleConverter),
      (NUMPY, NumPyConverter)]"

definition register_default_converters :: "DataManager \<Rightarrow> DataManager" where
  "register_default_converters dm =
     fold (\<lambda>(source_format, converter) dm1.
             fold (\<lambda>(target_format, c) dm2.
                     if source_format \<noteq> target_format
                     then register_converter dm2 source_format target_format converter
                     else dm2)
                  converter_formats dm1)
          converter_formats dm"

definition DataManager_init :: DataManager where
  "DataManager_init =
     register_default_converters
       (register_default_loaders \<lparr>loaders = (\<lambda>f. None), converters = (\<lambda>k. None)\<rparr>)"

text \<open>The methods of a loader object, dispatched on its class.\<close>

fun loader_load ::
  "'c extlib \<Rightarrow> loader_class \<Rightarrow> kwargs \<Rightarrow> path \<Rightarrow> 'c world \<Rightarrow> (error + pyval) \<times> 'c world" where
  "loader_load ext HDF5Loader kw self w = HDF5Loader_load (mode_of kw) self w"
| "loader_load ext ZarrLoader kw self w = ZarrLoader_load (mode_of kw) self w"
| "loader_load ext RLDSLoader kw self w = RLDSLoader_load ext self w"
| "loader_load ext LeRobotLoader kw self w = LeRobotLoader_load ext self w"
| "loader_load ext JSONLoader kw self w = JSONLoader_load ext self w"
| "loader_load ext PickleLoader kw self w = PickleLoader_load ext self w"
| "loader_load ext NumPyLoader kw self w = NumPyLoader_load ext self w"

fun loader_save ::
  "'c extlib \<Rightarrow> loader_class \<Rightarrow> path \<Rightarrow> pyval \<Rightarrow> path option \<Rightarrow> 'c world \<Rightarrow> (error + unit) \<times> 'c world" where
  "loader_save ext HDF5Loader self data popt w = HDF5Loader_save ext self data popt w"
| "loader_save ext ZarrLoader self data popt w = ZarrLoader_save ext self data popt w"
| "loader_save ext RLDSLoader self data popt w = RLDSLoader_save ext self data popt w"
| "loader_save ext LeRobotLoader self data popt w = LeRobotLoader_save ext self data popt w"
| "loader_save ext JSONLoader self data popt w = JSONLoader_save ext self data popt w"
| "loader_save ext PickleLoader self data popt w = PickleLoader_save ext self data popt w"
| "loader_save ext NumPyLoader self data popt w = NumPyLoader_save ext self data popt w"

fun loader_validate ::
  "'c extlib \<Rightarrow> loader_class \<Rightarrow> path \<Rightarrow> pyval \<Rightarrow> 'c world \<Rightarrow> (error + bool) \<times> 'c world" where
  "loader_validate ext HDF5Loader self data w = HDF5Loader_validate ext self data w"
| "loader_validate ext ZarrLoader self data w = ZarrLoader_validate ext self data w"
| "loader_validate ext RLDSLoader self data w = RLDSLoader_validate ext self data w"
| "loader_validate ext LeRobotLoader self data w = LeRobotLoader_validate ext self data w"
| "loader_validate ext JSONLoader self data w = JSONLoader_validate ext self data w"
| "loader_validate ext PickleLoader self data w = PickleLoader_validate ext self data w"
| "loader_validate ext NumPyLoader self data w = NumPyLoader_validate ext self data w"

text \<open>
  \<^verbatim>\<open>DataManager.load\<close>, \<^verbatim>\<open>save\<close>, \<^verbatim>\<open>convert\<close> and \<^verbatim>\<open>validate\<close>. The first three construct the
  loader with the keyword arguments of the call (\<^verbatim>\<open>save\<close> then never reads the mode, its
  loaders open the target with \<^verbatim>\<open>"w"\<close>); \<^verbatim>\<open>validate\<close> takes none and constructs the loader
  with the path alone.
\<close>

definition DataManager_load ::
  "'c extlib \<Rightarrow> DataManager \<Rightarrow> path \<Rightarrow> FormatType \<Rightarrow> kwargs \<Rightarrow> 'c world
     \<Rightarrow> (error + pyval) \<times> 'c world" where
  "DataManager_load ext dm p format_type kw w =
     (case loaders dm (if format_type = AUTO then detect_format p else format_type) of
        None \<Rightarrow> (Inl ValueError, w)
      | Some cls \<Rightarrow>
          (case BaseDataLoader_init p w of
             (Inl e, w1) \<Rightarrow> (Inl e, w1)
           | (Inr self, w1) \<Rightarrow> loader_load ext cls kw self w1))"

definition DataManager_save ::
  "'c extlib \<Rightarrow> DataManager \<Rightarrow> pyval \<Rightarrow> path \<Rightarrow> FormatType \<Rightarrow> kwargs \<Rightarrow> 'c world
     \<Rightarrow> (error + unit) \<times> 'c world" where
  "DataManager_save ext dm data p format_type kw w =
     (case loaders dm format_type of
        None \<Rightarrow> (Inl ValueError, w)
      | Some cls \<Rightarrow>
          (case BaseDataLoader_init p w of
             (Inl e, w1) \<Rightarrow> (Inl e, w1)
           | (Inr self, w1) \<Rightarrow> loader_save ext cls self data None w1))"

definition DataManager_convert ::
  "'c extlib \<Rightarrow> DataManager \<Rightarrow> path \<Rightarrow> path \<Rightarrow> FormatType \<Rightarrow> FormatType \<Rightarrow> kwargs \<Rightarrow> 'c world
     \<Rightarrow> (error + unit) \<times> 'c world" where
  "DataManager_convert ext dm source_path target_path source_format target_format kw w =
     (case DataManager_load ext dm source_path
             (if source_format = AUTO then detect_format source_path else source_format) kw w of
        (Inl e, w1) \<Rightarrow> (Inl e, w1)
      | (Inr source_data, w1) \<Rightarrow>
          DataManager_save ext dm source_data target_path
            (if target_format = AUTO then detect_format target_path else target_format) kw w1)"

definition DataManager_validate ::
  "'c extlib \<Rightarrow> DataManager \<Rightarrow> path \<Rightarrow> FormatType \<Rightarrow> 'c world \<Rightarrow> (error + bool) \<times> 'c world" where
  "DataManager_validate ext dm p format_type w =
     (case loaders dm (if format_type = AUTO then detect_format p else format_type) of
        None \<Rightarrow> (Inl ValueError, w)
      | Some cls \<Rightarrow>
          (case BaseDataLoader_init p w of
             (Inl e, w1) \<Rightarrow> (Inl e, w1)
           | (Inr self, w1) \<Rightarrow>
               (case loader_load ext cls None self w1 of
                  (Inl e, w2) \<Rightarrow> (Inl e, w2)
                | (Inr data, w2) \<Rightarrow> loader_validate ext cls self data w2)))"

text \<open>
  \<^verbatim>\<open>_find_files\<close> and \<^verbatim>\<open>_get_extension\<close>. \<^verbatim>\<open>directory.rglob("*" + ext)\<close> yields the entries
  below the directory, at any depth, whose name ends with the extension.
\<close>

definition extensions :: "FormatType \<Rightarrow> string list" where
  "extensions format_type =
     (case format_type of
        HDF5 \<Rightarrow> [''.h5'', ''.hdf5'']
      | ZARR \<Rightarrow> [''.zarr'']
      | JSON \<Rightarrow> [''.json'']
      | PICKLE \<Rightarrow> [''.pkl'', ''.pickle'']
      | NUMPY \<Rightarrow> [''.npy'', ''.npz'']
      | _ \<Rightarrow> [])"

definition get_extension :: "FormatType \<Rightarrow> string" where
  "get_extension format_type =
     (case format_type of
        HDF5 \<Rightarrow> ''.h5''
      | ZARR \<Rightarrow> ''.zarr''
      | JSON \<Rightarrow> ''.json''
      | PICKLE \<Rightarrow> ''.pkl''
      | NUMPY \<Rightarrow> ''.npy''
      | _ \<Rightarrow> ''.h5'')"

definition rglob :: "path \<Rightarrow> string \<Rightarrow> 'c world \<Rightarrow> path list \<times> 'c world" where
  "rglob directory e w =
     (filter (\<lambda>q. strictly_below directory q \<and> ends_with (path_name q) e) (map fst (files w)),
      record_io (IOGlob directory (''*'' @ e)) w)"

fun find_in :: "path \<Rightarrow> string list \<Rightarrow> path list \<Rightarrow> 'c world \<Rightarrow> path list \<times> 'c world" where
  "find_in directory [] found w = (found, w)"
| "find_in directory (e # es) found w =
     (case rglob directory e w of (qs, w1) \<Rightarrow> find_in directory es (found @ qs) w1)"

definition find_files :: "path \<Rightarrow> FormatType \<Rightarrow> 'c world \<Rightarrow> path list \<times> 'c world" where
  "find_files directory format_type w = find_in directory (extensions format_type) [] w"

text \<open>
  \<^verbatim>\<open>batch_convert\<close>. \<open>batch_loop\<close> is the \<^verbatim>\<open>for\<close> loop: the target path is computed outside
  the \<^verbatim>\<open>try\<close> block, so an exception of \<^verbatim>\<open>relative_to\<close> or \<^verbatim>\<open>with_suffix\<close> would leave the
  call; the conversion and the record of its success are inside.
\<close>

definition log_event :: "log_event \<Rightarrow> 'c world \<Rightarrow> 'c world" where
  "log_event ev w = w\<lparr>logged := logged w @ [ev]\<rparr>"

fun batch_loop ::
  "'c extlib \<Rightarrow> DataManager \<Rightarrow> path \<Rightarrow> path \<Rightarrow> FormatType \<Rightarrow> FormatType \<Rightarrow> kwargs \<Rightarrow> path list
     \<Rightarrow> 'c world \<Rightarrow> (error + unit) \<times> 'c world" where
  "batch_loop ext dm source_dir target_dir source_format target_format kw [] w = (Inr (), w)"
| "batch_loop ext dm source_dir target_dir source_format target_format kw (source_file # rest) w =
     (case relative_to source_file source_dir of
        Inl e \<Rightarrow> (Inl e, w)
      | Inr relative_path \<Rightarrow>
          (case with_suffix relative_path (get_extension target_format) of
             Inl e \<Rightarrow> (Inl e, w)
           | Inr renamed \<Rightarrow>
               (case DataManager_convert ext dm source_file (target_dir @ renamed)
                       source_format target_format kw w of
                  (Inr u, w1) \<Rightarrow>
                    batch_loop ext dm source_dir target_dir source_format target_format kw rest
                      (log_event (LogConverted source_file (target_dir @ renamed)) w1)
                | (Inl e, w1) \<Rightarrow>
                    batch_loop ext dm source_dir target_dir source_format target_format kw rest
                      (log_event (LogFailed source_file e) w1))))"

definition batch_convert ::
  "'c extlib \<Rightarrow> DataManager \<Rightarrow> path \<Rightarrow> path \<Rightarrow> FormatType \<Rightarrow> FormatType \<Rightarrow> kwargs \<Rightarrow> 'c world
     \<Rightarrow> (error + unit) \<times> 'c world" where
  "batch_convert ext dm source_dir target_dir source_format target_format kw w =
     (case path_mkdir target_dir w of
        (Inl e, w1) \<Rightarrow> (Inl e, w1)
      | (Inr u, w1) \<Rightarrow>
          (case find_files source_dir source_format w1 of
             (source_files, w2) \<Rightarrow>
               batch_loop ext dm source_dir target_dir source_format target_format kw source_files w2))"

text \<open>
  The batch as the specification words it. \<open>batch_target\<close> is the place of an output:
  the relative path of the source file below the source directory, put under the
  target directory, with the suffix of its name replaced by the canonical extension of
  the target format. \<open>convert_each\<close> converts each pair of a source and a target in
  turn; a conversion that raises is recorded as a failure and the next pair is
  converted. \<open>event_source\<close> is the source file a log record is about.
\<close>

fun event_source :: "log_event \<Rightarrow> path" where
  "event_source (LogConverted s t) = s"
| "event_source (LogFailed s e) = s"

definition batch_target :: "path \<Rightarrow> path \<Rightarrow> FormatType \<Rightarrow> path \<Rightarrow> path" where
  "batch_target source_dir target_dir target_format f =
     target_dir @ butlast (drop (length source_dir) f)
       @ [take (length (path_name f) - length (path_suffix f)) (path_name f)
            @ get_extension target_format]"

fun convert_each ::
  "'c extlib \<Rightarrow> DataManager \<Rightarrow> FormatType \<Rightarrow> FormatType \<Rightarrow> kwargs \<Rightarrow> (path \<times> path) list \<Rightarrow> 'c world
     \<Rightarrow> 'c world" where
  "convert_each ext dm source_format target_format kw [] w = w"
| "convert_each ext dm source_format target_format kw ((s, t) # rest) w =
     (case DataManager_convert ext dm s t source_format target_format kw w of
        (Inr u, w1) \<Rightarrow>
          convert_each ext dm source_format target_format kw rest (log_event (LogConverted s t) w1)
      | (Inl e, w1) \<Rightarrow>
          convert_each ext dm source_format target_format kw rest (log_event (LogFailed s e) w1))"

section \<open>What a tree codec stores\<close>

text \<open>
  \<open>stored_value c v\<close> is the value \<open>v\<close> with every leaf replaced by the array that the
  conversion \<open>c\<close> of a tree codec makes of it (a leaf that \<open>c\<close> refuses is left as it
  is); the keys and the nesting are those of \<open>v\<close>. \<open>plain_items\<close> says that every key,
  at every depth, is a plain name. \<open>array_items\<close> says that every leaf is an array of a
  dtype other than object.
\<close>

definition stored_leaf :: "(pyval \<Rightarrow> error + ndarray) \<Rightarrow> pyval \<Rightarrow> pyval" where
  "stored_leaf c v = (case c v of Inr a \<Rightarrow> PArray a | Inl e \<Rightarrow> v)"

fun stored_value :: "(pyval \<Rightarrow> error + ndarray) \<Rightarrow> pyval \<Rightarrow> pyval"
  and stored_items :: "(pyval \<Rightarrow> error + ndarray) \<Rightarrow> (string \<times> pyval) list \<Rightarrow> (string \<times> pyval) list" where
  "stored_value c (PDict d) = PDict (stored_items c d)"
| "stored_value c PNone = stored_leaf c PNone"
| "stored_value c (PBool b) = stored_leaf c (PBool b)"
| "stored_value c (PInt i) = stored_leaf c (PInt i)"
| "stored_value c (PFloat x) = stored_leaf c (PFloat x)"
| "stored_value c (PStr s) = stored_leaf c (PStr s)"
| "stored_value c (PList xs) = stored_leaf c (PList xs)"
| "stored_value c (PTuple xs) = stored_leaf c (PTuple xs)"
| "stored_value c (PArray a) = stored_leaf c (PArray a)"
| "stored_items c [] = []"
| "stored_items c ((k, v) # r) = (k, stored_value c v) # stored_items c r"

fun plain_value :: "pyval \<Rightarrow> bool" and plain_items :: "(string \<times> pyval) list \<Rightarrow> bool" where
  "plain_value (PDict d) = plain_items d"
| "plain_value PNone = True"
| "plain_value (PBool b) = True"
| "plain_value (PInt i) = True"
| "plain_value (PFloat x) = True"
| "plain_value (PStr s) = True"
| "plain_value (PList xs) = True"
| "plain_value (PTuple xs) = True"
| "plain_value (PArray a) = True"
| "plain_items [] = True"
| "plain_items ((k, v) # r) = (plain_name k \<and> plain_value v \<and> plain_items r)"


text \<open>
  \<open>writes_coerced leaf c\<close> says of a leaf writer that, when it succeeds under a plain
  name, it has appended to the group a dataset holding the array that \<open>c\<close> makes of the
  value.
\<close>

definition writes_coerced ::
  "(string \<Rightarrow> pyval \<Rightarrow> h5group \<Rightarrow> error option \<times> h5group) \<Rightarrow> (pyval \<Rightarrow> error + ndarray) \<Rightarrow> bool" where
  "writes_coerced leaf c =
     (\<forall>key v g g'. plain_name key \<longrightarrow> leaf key v g = (None, g')
        \<longrightarrow> (\<exists>a. c v = Inr a \<and> g' = g @ [(key, H5Dataset a)]))"

section \<open>A sample library and a sample file system\<close>

text \<open>
  A small instance of the library record, on which the model runs: the contents of a
  byte file are \<open>Some v\<close> when the file decodes to the value \<open>v\<close> and \<open>None\<close> when its
  bytes are corrupt; every encoder succeeds; \<^verbatim>\<open>np.array([i])\<close> of an integer is the
  one-element integer array. The sample file system holds a directory with three
  valid JSON files and a corrupt one.

  Of the names that are paths the sample library takes those of two plain components,
  \<^verbatim>\<open>a/b\<close>, in a group that has no member \<^verbatim>\<open>a\<close>, and does with them what h5py and zarr
  do: the group \<^verbatim>\<open>a\<close> is created and the member goes into it under the name \<^verbatim>\<open>b\<close>. It
  refuses every other name that is not plain.
\<close>

definition sample_at_path :: "string \<Rightarrow> h5group \<Rightarrow> error + (h5item \<Rightarrow> h5group)" where
  "sample_at_path key g =
     (case find_index CHR ''/'' key of
        None \<Rightarrow> Inl ValueError
      | Some k \<Rightarrow>
          (if plain_name (take k key) \<and> plain_name (drop (Suc k) key)
              \<and> take k key \<notin> set (map fst g)
           then Inr (\<lambda>item. g @ [(take k key, H5Group [(drop (Suc k) key, item)])])
           else Inl ValueError))"

definition sample_lib :: "pyval option extlib" where
  "sample_lib =
     \<lparr>np_array = (\<lambda>v. case v of PList [PInt i] \<Rightarrow> Inr (NDArray DInt [1] [SInt i]) | _ \<Rightarrow> Inl ValueError),
      np_array_S = (\<lambda>xs. Inr (NDArray DBytes [length xs] (map SBytes xs))),
      py_str = (\<lambda>x. []),
      h5_accepts_gzip = (\<lambda>a. True),
      h5_accepts = (\<lambda>a. True),
      zarr_accepts_blosc = (\<lambda>a. True),
      zarr_accepts = (\<lambda>a. True),
      h5_at_path = sample_at_path,
      zarr_at_path = sample_at_path,
      json_load = (\<lambda>c. case c of Some v \<Rightarrow> Inr v | None \<Rightarrow> Inl ValueError),
      json_dump = (\<lambda>v. (Some v, None)),
      pickle_load = (\<lambda>c. case c of Some v \<Rightarrow> Inr v | None \<Rightarrow> Inl ValueError),
      pickle_dump = (\<lambda>v. (Some v, None)),
      np_load = (\<lambda>c. case c of Some (PArray a) \<Rightarrow> Inr a | _ \<Rightarrow> Inl ValueError),
      np_load_npz = (\<lambda>c. case c of Some (PDict d) \<Rightarrow> Inr d | _ \<Rightarrow> Inl ValueError),
      np_save = (\<lambda>v. (Some v, None)),
      np_savez = (\<lambda>d. (Some (PDict d), None)),
      tf_records = (\<lambda>c. case c of Some (PList xs) \<Rightarrow> Inr (length xs) | _ \<Rightarrow> Inl ValueError),
      tf_write = (\<lambda>n. Some (PList (replicate n PNone)))\<rparr>"

definition sample_world :: "pyval option world" where
  "sample_world =
     \<lparr>files =
        [([''src''], Dir),
         ([''src'', ''a.json''], Bytes (Some (PDict [(''n'', PInt 1)]))),
         ([''src'', ''b.json''], Bytes (Some (PDict [(''n'', PInt 2)]))),
         ([''src'', ''bad.json''], Bytes None),
         ([''src'', ''c.json''], Bytes (Some (PDict [(''n'', PInt 3)])))],
      trace = [], logged = []\<rparr>"

text \<open>A file system with an HDF5 file and a Zarr store, each holding one array.\<close>

definition sample_store_world :: "pyval option world" where
  "sample_store_world =
     \<lparr>files =
        [([''data''], Dir),
         ([''data'', ''run.h5''], H5File [(''obs'', H5Dataset (NDArray DFloat [2] [SFloat 1, SFloat 2]))]),
         ([''data'', ''run.zarr''], ZarrStore [(''obs'', H5Dataset (NDArray DFloat [2] [SFloat 1, SFloat 2]))])],
      trace = [], logged = []\<rparr>"

text \<open>
  A manager in which the pickle format has lost its loader, as after
  \<^verbatim>\<open>register_loader(FormatType.PICKLE, None)\<close>.
\<close>

definition manager_without_pickle :: DataManager where
  "manager_without_pickle = DataManager_init\<lparr>loaders := (loaders DataManager_init)(PICKLE := None)\<rparr>"

section \<open>Properties of format detection\<close>

lemma map_of_format_mapping_cases:
  "map_of format_mapping s = Some f \<Longrightarrow>
     s \<in> {''.h5'', ''.hdf5'', ''.zarr'', ''.json'', ''.pkl'', ''.pickle'', ''.npy'', ''.npz''}"
  by (simp add: format_mapping_def split: if_splits)

text \<open>
  Claim C7. Detection depends on the path only through the lower-cased suffix of its
  name: two paths with the same lower-cased suffix are detected alike. The suffixes
  \<^verbatim>\<open>.h5\<close> and \<^verbatim>\<open>.hdf5\<close> give HDF5, \<^verbatim>\<open>.zarr\<close> gives ZARR, \<^verbatim>\<open>.json\<close> gives JSON,
  \<^verbatim>\<open>.pkl\<close> and \<^verbatim>\<open>.pickle\<close> give PICKLE, \<^verbatim>\<open>.npy\<close> and \<^verbatim>\<open>.npz\<close> give NUMPY, and every
  other suffix, the empty one included, gives HDF5; detection never fails and never
  answers AUTO.
\<close>

theorem detect_format_table:
  "(lower (path_suffix p) = lower (path_suffix q) \<longrightarrow> detect_format p = detect_format q)
   \<and> (lower (path_suffix p) \<in> {''.h5'', ''.hdf5''} \<longrightarrow> detect_format p = HDF5)
   \<and> (lower (path_suffix p) = ''.zarr'' \<longrightarrow> detect_format p = ZARR)
   \<and> (lower (path_suffix p) = ''.json'' \<longrightarrow> detect_format p = JSON)
   \<and> (lower (path_suffix p) \<in> {''.pkl'', ''.pickle''} \<longrightarrow> detect_format p = PICKLE)
   \<and> (lower (path_suffix p) \<in> {''.npy'', ''.npz''} \<longrightarrow> detect_format p = NUMPY)
   \<and> (lower (path_suffix p) \<notin>
          {''.h5'', ''.hdf5'', ''.zarr'', ''.json'', ''.pkl'', ''.pickle'', ''.npy'', ''.npz''}
        \<longrightarrow> detect_format p = HDF5)
   \<and> detect_format p \<noteq> AUTO"
proof -
  have other: "detect_format p = HDF5"
    if "lower (path_suffix p) \<notin>
          {''.h5'', ''.hdf5'', ''.zarr'', ''.json'', ''.pkl'', ''.pickle'', ''.npy'', ''.npz''}"
  proof (cases "map_of format_mapping (lower (path_suffix p))")
    case None
    then show ?thesis by (simp add: detect_format_def)
  next
    case (Some f)
    from map_of_format_mapping_cases [OF Some] that show ?thesis by simp
  qed
  have no_auto: "detect_format p \<noteq> AUTO"
    by (cases "map_of format_mapping (lower (path_suffix p))")
       (auto simp: detect_format_def format_mapping_def split: if_splits)
  show ?thesis
    using other no_auto by (auto simp: detect_format_def format_mapping_def)
qed

theorem detect_format_table_witness:
  "detect_format [''data'', ''foo.Zarr''] = detect_format [''x.zarr'']
   \<and> detect_format [''data'', ''foo.Zarr''] = ZARR
   \<and> detect_format [''run.H5''] = HDF5
   \<and> detect_format [''ep.json''] = JSON
   \<and> detect_format [''ep.pickle''] = PICKLE
   \<and> detect_format [''ep.NPZ''] = NUMPY
   \<and> detect_format [''foo.unknownext''] = HDF5
   \<and> detect_format [''noext''] = HDF5"
proof -
  have s1: "lower (path_suffix [''data'', ''foo.Zarr'']) = ''.zarr''" by code_simp
  have s2: "lower (path_suffix [''x.zarr'']) = ''.zarr''" by code_simp
  have s3: "lower (path_suffix [''run.H5'']) = ''.h5''" by code_simp
  have s4: "lower (path_suffix [''ep.json'']) = ''.json''" by code_simp
  have s5: "lower (path_suffix [''ep.pickle'']) = ''.pickle''" by code_simp
  have s6: "lower (path_suffix [''ep.NPZ'']) = ''.npz''" by code_simp
  have s7: "lower (path_suffix [''foo.unknownext'']) = ''.unknownext''" by code_simp
  have s8: "lower (path_suffix [''noext'']) = []" by code_simp
  have c1: "detect_format [''data'', ''foo.Zarr''] = detect_format [''x.zarr'']"
    using detect_format_table [of "[''data'', ''foo.Zarr'']" "[''x.zarr'']"]
    by (simp only: s1 s2 simp_thms)
  have c2: "detect_format [''data'', ''foo.Zarr''] = ZARR"
    using detect_format_table [of "[''data'', ''foo.Zarr'']" "[]"]
    by (simp only: s1 simp_thms)
  have c3: "detect_format [''run.H5''] = HDF5"
    using detect_format_table [of "[''run.H5'']" "[]"]
    by (simp only: s3 insert_iff simp_thms)
  have c4: "detect_format [''ep.json''] = JSON"
    using detect_format_table [of "[''ep.json'']" "[]"]
    by (simp only: s4 simp_thms)
  have c5: "detect_format [''ep.pickle''] = PICKLE"
    using detect_format_table [of "[''ep.pickle'']" "[]"]
    by (simp only: s5 insert_iff simp_thms)
  have c6: "detect_format [''ep.NPZ''] = NUMPY"
    using detect_format_table [of "[''ep.NPZ'']" "[]"]
    by (simp only: s6 insert_iff simp_thms)
  have n7: "''.unknownext'' \<notin>
      {''.h5'', ''.hdf5'', ''.zarr'', ''.json'', ''.pkl'', ''.pickle'', ''.npy'', ''.npz''}"
    by simp
  have c7: "detect_format [''foo.unknownext''] = HDF5"
    using detect_format_table [of "[''foo.unknownext'']" "[]"] n7
    by (simp only: s7 simp_thms)
  have n8: "[] \<notin>
      {''.h5'', ''.hdf5'', ''.zarr'', ''.json'', ''.pkl'', ''.pickle'', ''.npy'', ''.npz''}"
    by simp
  have c8: "detect_format [''noext''] = HDF5"
    using detect_format_table [of "[''noext'']" "[]"] n8
    by (simp only: s8 simp_thms)
  show ?thesis
    using c1 c2 c3 c4 c5 c6 c7 c8 by (simp only: simp_thms)
qed


section \<open>What the operations leave unchanged\<close>

lemma detect_format_not_AUTO: "detect_format p \<noteq> AUTO"
  by (cases "map_of format_mapping (lower (path_suffix p))")
     (auto simp: detect_format_def format_mapping_def split: if_splits)

lemma files_record_io [simp]: "files (record_io e w) = files w"
  by (simp add: record_io_def)
lemma logged_record_io [simp]: "logged (record_io e w) = logged w"
  by (simp add: record_io_def)
lemma logged_write_node [simp]: "logged (write_node p n w) = logged w"
  by (simp add: write_node_def)
lemma logged_remove_below [simp]: "logged (remove_below p w) = logged w"
  by (simp add: remove_below_def)
lemma node_at_record_io [simp]: "node_at (record_io e w) p = node_at w p"
  by (simp add: node_at_def)

lemma logged_mkdirs [simp]: "logged (snd (mkdirs qs w)) = logged w"
  by (induction qs arbitrary: w) (auto split: option.splits)

lemma logged_path_mkdir [simp]: "logged (snd (path_mkdir p w)) = logged w"
  by (simp add: path_mkdir_def)

lemma read_decoded_world: "snd (read_decoded dec p w) = record_io (IOOpenRead p) w"
  by (auto simp: read_decoded_def read_bytes_def split_beta split: sum.splits option.splits node.splits)

lemma load_episode_files_files [simp]: "files (snd (load_episode_files ext qs w)) = files w"
  by (induction qs arbitrary: w)
     (auto simp: read_bytes_def split_beta split: sum.splits option.splits node.splits)

lemma load_episode_files_logged [simp]: "logged (snd (load_episode_files ext qs w)) = logged w"
  by (induction qs arbitrary: w)
     (auto simp: read_bytes_def split_beta split: sum.splits option.splits node.splits)

lemma h5_open_read [simp]: "h5_open ''r'' p w = h5_open_r p w"
  by (simp add: h5_open_def)

lemma zarr_open_read [simp]: "zarr_open ''r'' p w = zarr_open_r p w"
  by (simp add: zarr_open_def)

lemma mode_of_None [simp]: "mode_of None = ''r''"
  by (simp add: mode_of_def)


lemma logged_h5_open [simp]: "logged (snd (h5_open mode p w)) = logged w"
  by (auto simp: h5_open_def h5_create_def h5_open_w_def h5_open_r_def split_beta)

lemma logged_zarr_open_w [simp]: "logged (snd (zarr_open_w p w)) = logged w"
proof -
  have "logged (snd (mkdirs (ancestors_and_self (butlast p)) (record_io (IOOpenWrite p) w))) = logged w"
    by simp
  then show ?thesis
    by (cases "mkdirs (ancestors_and_self (butlast p)) (record_io (IOOpenWrite p) w)";
        cases "fst (mkdirs (ancestors_and_self (butlast p)) (record_io (IOOpenWrite p) w))")
       (auto simp: zarr_open_w_def)
qed

lemma logged_zarr_create [simp]: "logged (snd (zarr_create p w)) = logged w"
  using logged_zarr_open_w [of p w]
  by (cases "zarr_open_w p w"; cases "fst (zarr_open_w p w)") (auto simp: zarr_create_def)

lemma logged_zarr_open [simp]: "logged (snd (zarr_open mode p w)) = logged w"
  by (auto simp: zarr_open_def zarr_init_def zarr_open_r_def split: option.splits node.splits)

lemma loader_load_logged: "logged (snd (loader_load ext cls kw self w)) = logged w"
proof (cases cls)
  case HDF5Loader
  then show ?thesis
    using logged_h5_open [of "mode_of kw" self w]
    by (cases "h5_open (mode_of kw) self w"; cases "fst (h5_open (mode_of kw) self w)")
       (auto simp: HDF5Loader_load_def)
next
  case ZarrLoader
  then show ?thesis
    using logged_zarr_open [of "mode_of kw" self w]
    by (cases "zarr_open (mode_of kw) self w"; cases "fst (zarr_open (mode_of kw) self w)")
       (auto simp: ZarrLoader_load_def)
qed (auto simp: RLDSLoader_load_def LeRobotLoader_load_def
        JSONLoader_load_def PickleLoader_load_def NumPyLoader_load_def
        read_decoded_def read_bytes_def path_is_file_def glob_episodes_def split_beta
        split: sum.splits option.splits node.splits if_splits bool.splits)

lemma loader_load_error:
  "fst (loader_load ext cls kw self w) = Inl e \<Longrightarrow> e = DataValidationError"
  by (cases cls)
     (auto simp: HDF5Loader_load_def ZarrLoader_load_def RLDSLoader_load_def LeRobotLoader_load_def
        JSONLoader_load_def PickleLoader_load_def NumPyLoader_load_def
        read_decoded_def read_bytes_def path_is_file_def glob_episodes_def split_beta
        split: sum.splits option.splits node.splits if_splits bool.splits)

lemma loader_validate_total: "\<exists>b. fst (loader_validate ext cls self data w) = Inr b"
  by (cases cls)
     (auto simp: HDF5Loader_validate_def ZarrLoader_validate_def RLDSLoader_validate_def
        LeRobotLoader_validate_def JSONLoader_validate_def PickleLoader_validate_def
        NumPyLoader_validate_def split_beta
        split: sum.splits option.splits pyval.splits)

lemma loaders_register_default_converters [simp]:
  "loaders (register_default_converters dm) = loaders dm"
  by (simp add: register_default_converters_def converter_formats_def register_converter_def)

lemma loaders_DataManager_init:
  "loaders DataManager_init =
     (\<lambda>f. case f of HDF5 \<Rightarrow> Some HDF5Loader | ZARR \<Rightarrow> Some ZarrLoader | RLDS \<Rightarrow> Some RLDSLoader
          | LEROBOT \<Rightarrow> Some LeRobotLoader | JSON \<Rightarrow> Some JSONLoader | PICKLE \<Rightarrow> Some PickleLoader
          | NUMPY \<Rightarrow> Some NumPyLoader | AUTO \<Rightarrow> None)"
  by (rule ext) (simp add: DataManager_init_def register_default_loaders_def register_loader_def
       split: FormatType.splits)

lemma resolve_idem:
  "(if (if f = AUTO then detect_format p else f) = AUTO then detect_format p
    else (if f = AUTO then detect_format p else f)) = (if f = AUTO then detect_format p else f)"
  by (simp add: detect_format_not_AUTO)

lemma BaseDataLoader_init_eq:
  "BaseDataLoader_init p w =
     (if node_at w p = None then (Inl (FileNotFoundError p), record_io (IOExists p) w)
      else (Inr p, record_io (IOExists p) w))"
  by (simp add: BaseDataLoader_init_def validate_path_def path_exists_def)


lemma load_resolved:
  "DataManager_load ext dm s (if sf = AUTO then detect_format s else sf) kw w
     = DataManager_load ext dm s sf kw w"
  by (simp add: DataManager_load_def detect_format_not_AUTO)


section \<open>AUTO resolution\<close>

text \<open>
  Claim C10. A conversion with both formats left to AUTO is the conversion with the
  formats that detection gives for the source and the target path, under the same
  keyword arguments: the same result, the same file system, the same trace and the
  same log.
\<close>

theorem convert_AUTO_is_detect:
  "DataManager_convert ext dm s t AUTO AUTO kw w
     = DataManager_convert ext dm s t (detect_format s) (detect_format t) kw w"
  by (simp add: DataManager_convert_def detect_format_not_AUTO)


theorem convert_AUTO_is_detect_witness:
  "DataManager_convert sample_lib DataManager_init [''src'', ''a.json''] [''src'', ''b.json''] AUTO AUTO
       None sample_world
     = DataManager_convert sample_lib DataManager_init [''src'', ''a.json''] [''src'', ''b.json''] JSON JSON
         None sample_world"
proof -
  have d1: "detect_format [''src'', ''a.json''] = JSON" by code_simp
  have d2: "detect_format [''src'', ''b.json''] = JSON" by code_simp
  show ?thesis
    using convert_AUTO_is_detect [of sample_lib DataManager_init "[''src'', ''a.json'']"
        "[''src'', ''b.json'']" None sample_world]
    by (simp only: d1 d2)
qed

section \<open>Formats without a loader\<close>

text \<open>
  Claim C5, as the program has it. A format with no registered loader makes
  \<^verbatim>\<open>load\<close>, \<^verbatim>\<open>validate\<close> and \<^verbatim>\<open>save\<close> raise \<^verbatim>\<open>ValueError\<close> with the world untouched: no
  file-system access is made. \<^verbatim>\<open>convert\<close> rejects an unregistered source format in the
  same way. An unregistered target format is rejected only after the source has been
  loaded: the conversion first does all that the load does, and raises the load's
  exception when the load fails, \<^verbatim>\<open>ValueError\<close> otherwise.
\<close>

theorem unregistered_format_rejection:
  "(loaders dm (if fmt = AUTO then detect_format p else fmt) = None \<longrightarrow>
      DataManager_load ext dm p fmt kw w = (Inl ValueError, w)
      \<and> DataManager_validate ext dm p fmt w = (Inl ValueError, w))
   \<and> (loaders dm fmt = None \<longrightarrow> DataManager_save ext dm data p fmt kw w = (Inl ValueError, w))
   \<and> (loaders dm (if sf = AUTO then detect_format s else sf) = None \<longrightarrow>
        DataManager_convert ext dm s t sf tf kw w = (Inl ValueError, w))
   \<and> (loaders dm (if tf = AUTO then detect_format t else tf) = None \<longrightarrow>
        DataManager_convert ext dm s t sf tf kw w =
          (case DataManager_load ext dm s sf kw w of
             (Inl e, w1) \<Rightarrow> (Inl e, w1)
           | (Inr d, w1) \<Rightarrow> (Inl ValueError, w1)))"
proof -
  have load_resolved:
    "DataManager_load ext dm s (if sf = AUTO then detect_format s else sf) kw w
       = DataManager_load ext dm s sf kw w"
    by (simp add: DataManager_load_def detect_format_not_AUTO)
  show ?thesis
    unfolding DataManager_convert_def load_resolved
    by (auto simp: DataManager_load_def DataManager_validate_def DataManager_save_def
          split: prod.splits sum.splits)
qed


theorem unregistered_format_rejection_witness:
  "DataManager_load sample_lib manager_without_pickle [''x.pkl''] AUTO None sample_world
     = (Inl ValueError, sample_world)
   \<and> DataManager_validate sample_lib manager_without_pickle [''x.pkl''] AUTO sample_world
     = (Inl ValueError, sample_world)
   \<and> DataManager_save sample_lib manager_without_pickle (PDict []) [''x.pkl''] PICKLE None sample_world
     = (Inl ValueError, sample_world)
   \<and> DataManager_convert sample_lib manager_without_pickle [''x.pkl''] [''y.json''] PICKLE JSON None
        sample_world
     = (Inl ValueError, sample_world)
   \<and> DataManager_convert sample_lib manager_without_pickle [''src'', ''a.json''] [''out.pkl''] JSON PICKLE
        None sample_world
     = (case DataManager_load sample_lib manager_without_pickle [''src'', ''a.json''] JSON None
               sample_world of
          (Inl e, w1) \<Rightarrow> (Inl e, w1)
        | (Inr d, w1) \<Rightarrow> (Inl ValueError, w1))"
proof -
  have h1: "loaders manager_without_pickle (if AUTO = AUTO then detect_format [''x.pkl''] else AUTO) = None"
    by code_simp
  have h2: "loaders manager_without_pickle PICKLE = None"
    by code_simp
  have h3: "loaders manager_without_pickle (if PICKLE = AUTO then detect_format [''x.pkl''] else PICKLE) = None"
    by code_simp
  have h4: "loaders manager_without_pickle (if PICKLE = AUTO then detect_format [''out.pkl''] else PICKLE) = None"
    by code_simp
  show ?thesis
    using
      unregistered_format_rejection [where dm = manager_without_pickle and fmt = AUTO
        and p = "[''x.pkl'']" and ext = sample_lib and w = sample_world and sf = PICKLE
        and s = "[''x.pkl'']" and t = "[''y.json'']" and tf = JSON and kw = None]
      unregistered_format_rejection [where dm = manager_without_pickle and fmt = PICKLE
        and p = "[''x.pkl'']" and ext = sample_lib and w = sample_world and data = "PDict []"
        and sf = JSON and s = "[''src'', ''a.json'']" and t = "[''out.pkl'']" and tf = PICKLE
        and kw = None]
      h1 h2 h3 h4
    by blast
qed

text \<open>
  The claim as the specification words it fails: with the pickle loader missing, a
  conversion from JSON to pickle checks and reads the source file before it raises.
\<close>

theorem unregistered_target_after_load_counterexample:
  "loaders manager_without_pickle PICKLE = None
   \<and> DataManager_convert sample_lib manager_without_pickle [''src'', ''a.json''] [''out.pkl''] JSON PICKLE
        None sample_world
     = (Inl ValueError,
        sample_world\<lparr>trace := [IOExists [''src'', ''a.json''], IOOpenRead [''src'', ''a.json'']]\<rparr>)"
  by code_simp

section \<open>Validation\<close>

text \<open>
  Claim C1, as the program has it. The \<^verbatim>\<open>validate\<close> method of every loader returns a
  boolean, whatever the data, the path and the file system. \<^verbatim>\<open>DataManager.validate\<close>
  does not: it raises \<^verbatim>\<open>ValueError\<close> for a format without a loader,
  \<^verbatim>\<open>FileNotFoundError\<close> for a path that does not exist and \<^verbatim>\<open>DataValidationError\<close> when
  the file does not load; in the remaining case, when the file loads, its outcome is
  that of the loader's \<^verbatim>\<open>validate\<close> on the data loaded, so it returns the loader's
  boolean.
\<close>

theorem validate_results:
  "(\<exists>b. fst (loader_validate ext cls self data w) = Inr b)
   \<and> (loaders dm (if fmt = AUTO then detect_format p else fmt) = None \<longrightarrow>
        fst (DataManager_validate ext dm p fmt w) = Inl ValueError)
   \<and> (loaders dm (if fmt = AUTO then detect_format p else fmt) = Some c \<and> node_at w p = None \<longrightarrow>
        fst (DataManager_validate ext dm p fmt w) = Inl (FileNotFoundError p))
   \<and> (loaders dm (if fmt = AUTO then detect_format p else fmt) = Some c \<and> node_at w p \<noteq> None
        \<and> fst (loader_load ext c None p (record_io (IOExists p) w)) = Inl e \<longrightarrow>
        e = DataValidationError \<and> fst (DataManager_validate ext dm p fmt w) = Inl DataValidationError)
   \<and> (loaders dm (if fmt = AUTO then detect_format p else fmt) = Some c \<and> node_at w p \<noteq> None
        \<and> loader_load ext c None p (record_io (IOExists p) w) = (Inr d, w') \<longrightarrow>
        DataManager_validate ext dm p fmt w = loader_validate ext c p d w'
        \<and> (\<exists>b. fst (DataManager_validate ext dm p fmt w) = Inr b))"
proof (intro conjI impI)
  show "\<exists>b. fst (loader_validate ext cls self data w) = Inr b"
    by (rule loader_validate_total)
next
  assume "loaders dm (if fmt = AUTO then detect_format p else fmt) = None"
  then show "fst (DataManager_validate ext dm p fmt w) = Inl ValueError"
    by (simp add: DataManager_validate_def)
next
  assume "loaders dm (if fmt = AUTO then detect_format p else fmt) = Some c \<and> node_at w p = None"
  then show "fst (DataManager_validate ext dm p fmt w) = Inl (FileNotFoundError p)"
    by (simp add: DataManager_validate_def BaseDataLoader_init_eq)
next
  assume a: "loaders dm (if fmt = AUTO then detect_format p else fmt) = Some c \<and> node_at w p \<noteq> None
        \<and> fst (loader_load ext c None p (record_io (IOExists p) w)) = Inl e"
  then show "e = DataValidationError" using loader_load_error by blast
  from a show "fst (DataManager_validate ext dm p fmt w) = Inl DataValidationError"
    using loader_load_error [of ext c None p "record_io (IOExists p) w" e]
    by (auto simp: DataManager_validate_def BaseDataLoader_init_eq split_beta split: sum.splits)
next
  assume a: "loaders dm (if fmt = AUTO then detect_format p else fmt) = Some c \<and> node_at w p \<noteq> None
        \<and> loader_load ext c None p (record_io (IOExists p) w) = (Inr d, w')"
  then show eq: "DataManager_validate ext dm p fmt w = loader_validate ext c p d w'"
    by (simp add: DataManager_validate_def BaseDataLoader_init_eq del: not_None_eq)
  obtain b where "fst (loader_validate ext c p d w') = Inr b"
    using loader_validate_total by blast
  with eq show "\<exists>b. fst (DataManager_validate ext dm p fmt w) = Inr b"
    by simp
qed


theorem validate_results_witness:
  "DataManager_validate sample_lib DataManager_init [''src'', ''a.json''] AUTO sample_world
     = (Inr True,
        sample_world\<lparr>trace := [IOExists [''src'', ''a.json''], IOOpenRead [''src'', ''a.json'']]\<rparr>)
   \<and> fst (DataManager_validate sample_lib DataManager_init [''src'', ''bad.json''] AUTO sample_world)
       = Inl DataValidationError
   \<and> fst (DataManager_validate sample_lib DataManager_init [''missing.json''] AUTO sample_world)
       = Inl (FileNotFoundError [''missing.json''])
   \<and> fst (DataManager_validate sample_lib manager_without_pickle [''x.pkl''] AUTO sample_world)
       = Inl ValueError"
proof -
  have r1: "loaders DataManager_init (if AUTO = AUTO then detect_format [''src'', ''a.json''] else AUTO)
              = Some JSONLoader" by code_simp
  have r2: "loaders DataManager_init (if AUTO = AUTO then detect_format [''src'', ''bad.json''] else AUTO)
              = Some JSONLoader" by code_simp
  have r3: "loaders DataManager_init (if AUTO = AUTO then detect_format [''missing.json''] else AUTO)
              = Some JSONLoader" by code_simp
  have r4: "loaders manager_without_pickle (if AUTO = AUTO then detect_format [''x.pkl''] else AUTO) = None"
    by code_simp
  have n1: "node_at sample_world [''src'', ''a.json''] \<noteq> None" by code_simp
  have n2: "node_at sample_world [''src'', ''bad.json''] \<noteq> None" by code_simp
  have n3: "node_at sample_world [''missing.json''] = None" by code_simp
  have l1: "loader_load sample_lib JSONLoader None [''src'', ''a.json'']
                  (record_io (IOExists [''src'', ''a.json'']) sample_world)
              = (Inr (PDict [(''n'', PInt 1)]),
                 sample_world\<lparr>trace := [IOExists [''src'', ''a.json''], IOOpenRead [''src'', ''a.json'']]\<rparr>)"
    by code_simp
  have l2: "fst (loader_load sample_lib JSONLoader None [''src'', ''bad.json'']
                  (record_io (IOExists [''src'', ''bad.json'']) sample_world)) = Inl DataValidationError"
    by code_simp
  have v1: "loader_validate sample_lib JSONLoader [''src'', ''a.json''] (PDict [(''n'', PInt 1)])
              (sample_world\<lparr>trace := [IOExists [''src'', ''a.json''], IOOpenRead [''src'', ''a.json'']]\<rparr>)
            = (Inr True,
               sample_world\<lparr>trace := [IOExists [''src'', ''a.json''], IOOpenRead [''src'', ''a.json'']]\<rparr>)"
    by code_simp
  have c1: "DataManager_validate sample_lib DataManager_init [''src'', ''a.json''] AUTO sample_world
     = (Inr True,
        sample_world\<lparr>trace := [IOExists [''src'', ''a.json''], IOOpenRead [''src'', ''a.json'']]\<rparr>)"
    using validate_results [where dm = DataManager_init and fmt = AUTO and p = "[''src'', ''a.json'']"
        and ext = sample_lib and w = sample_world and c = JSONLoader and d = "PDict [(''n'', PInt 1)]"
        and w' = "sample_world\<lparr>trace := [IOExists [''src'', ''a.json''], IOOpenRead [''src'', ''a.json'']]\<rparr>"
        and e = DataValidationError and cls = JSONLoader and self = "[]" and data = PNone]
      r1 n1 l1
    by (simp only: v1 simp_thms)
  have c2: "fst (DataManager_validate sample_lib DataManager_init [''src'', ''bad.json''] AUTO sample_world)
              = Inl DataValidationError"
    using validate_results [where dm = DataManager_init and fmt = AUTO and p = "[''src'', ''bad.json'']"
        and ext = sample_lib and w = sample_world and c = JSONLoader and d = PNone and w' = sample_world
        and e = DataValidationError and cls = JSONLoader and self = "[]" and data = PNone]
      r2 n2 l2
    by simp
  have c3: "fst (DataManager_validate sample_lib DataManager_init [''missing.json''] AUTO sample_world)
              = Inl (FileNotFoundError [''missing.json''])"
    using validate_results [where dm = DataManager_init and fmt = AUTO and p = "[''missing.json'']"
        and ext = sample_lib and w = sample_world and c = JSONLoader and d = PNone and w' = sample_world
        and e = DataValidationError and cls = JSONLoader and self = "[]" and data = PNone]
      r3 n3
    by simp
  have c4: "fst (DataManager_validate sample_lib manager_without_pickle [''x.pkl''] AUTO sample_world)
              = Inl ValueError"
    using validate_results [where dm = manager_without_pickle and fmt = AUTO and p = "[''x.pkl'']"
        and ext = sample_lib and w = sample_world and c = JSONLoader and d = PNone and w' = sample_world
        and e = DataValidationError and cls = JSONLoader and self = "[]" and data = PNone]
      r4
    by simp
  show ?thesis
    using c1 c2 c3 c4 by (simp only: simp_thms)
qed

text \<open>
  The claim as the specification words it fails on a path that does not exist: the
  manager's \<^verbatim>\<open>validate\<close> raises instead of answering \<^verbatim>\<open>False\<close>.
\<close>

theorem validate_missing_path_counterexample:
  "fst (DataManager_validate sample_lib DataManager_init [''missing.json''] AUTO sample_world)
     = Inl (FileNotFoundError [''missing.json''])"
  by code_simp

section \<open>Targets that do not exist yet\<close>

text \<open>
  The keyword arguments of a conversion reach the loader of the source. With
  \<^verbatim>\<open>mode="w"\<close> the HDF5 source is opened for writing: it is emptied, the empty dictionary
  is what the load returns, and the conversion goes on to its target with the source
  already lost.
\<close>

lemma convert_mode_w_truncates_source:
  "node_at sample_store_world [''data'', ''run.h5'']
     = Some (H5File [(''obs'', H5Dataset (NDArray DFloat [2] [SFloat 1, SFloat 2]))])
   \<and> fst (DataManager_convert sample_lib DataManager_init [''data'', ''run.h5''] [''data'', ''fresh.json'']
            HDF5 JSON (Some ''w'') sample_store_world)
       = Inl (FileNotFoundError [''data'', ''fresh.json''])
   \<and> node_at (snd (DataManager_convert sample_lib DataManager_init [''data'', ''run.h5'']
                     [''data'', ''fresh.json''] HDF5 JSON (Some ''w'') sample_store_world))
         [''data'', ''run.h5'']
       = Some (H5File [])"
  by code_simp





section \<open>A batch into a fresh directory\<close>

text \<open>
  Claim C2 at the scenario of the specification: three valid JSON files and a corrupt
  one, converted to pickle into a directory that does not exist yet. The call
  returns normally, but it writes no output at all: the target directory is created
  and stays empty, and all four conversions are logged as failures, the three valid
  files with the \<^verbatim>\<open>FileNotFoundError\<close> of their target and the corrupt one with
  \<^verbatim>\<open>DataValidationError\<close>.
\<close>

theorem batch_convert_fresh_directory_no_output:
  "fst (batch_convert sample_lib DataManager_init [''src''] [''out''] JSON PICKLE None sample_world) = Inr ()
   \<and> files (snd (batch_convert sample_lib DataManager_init [''src''] [''out''] JSON PICKLE None sample_world))
       = files sample_world @ [([''out''], Dir)]
   \<and> logged (snd (batch_convert sample_lib DataManager_init [''src''] [''out''] JSON PICKLE None sample_world))
       = [LogFailed [''src'', ''a.json''] (FileNotFoundError [''out'', ''a.pkl'']),
          LogFailed [''src'', ''b.json''] (FileNotFoundError [''out'', ''b.pkl'']),
          LogFailed [''src'', ''bad.json''] DataValidationError,
          LogFailed [''src'', ''c.json''] (FileNotFoundError [''out'', ''c.pkl''])]"
  by code_simp

section \<open>Saving and loading through the codecs\<close>

lemma map_of_put_node [simp]: "map_of (put_node p n fs) p = Some n"
  by (induction fs) auto

lemma node_at_write_node [simp]: "node_at (write_node p n w) p = Some n"
  by (simp add: node_at_def write_node_def)

lemma recursively_read_group_append:
  "recursively_read_group (g @ h) = recursively_read_group g @ recursively_read_group h"
  by (induction g) auto

lemma create_dataset_plain:
  "plain_name key \<Longrightarrow> create_dataset at_path accepts key a g = Inr g' \<Longrightarrow> g' = g @ [(key, H5Dataset a)]"
  by (auto simp: create_dataset_def create_member_def split: if_splits)

lemma create_with_fallback_plain:
  "plain_name key \<Longrightarrow> create_with_fallback at_path c u key a g = (None, g')
     \<Longrightarrow> g' = g @ [(key, H5Dataset a)]"
  by (auto simp: create_with_fallback_def dest: create_dataset_plain split: sum.splits)

lemma writes_coerced_HDF5: "writes_coerced (HDF5_write_leaf ext) (HDF5_coerce ext)"
  unfolding writes_coerced_def
  by (auto simp: HDF5_write_leaf_def dest: create_with_fallback_plain split: sum.splits)

lemma writes_coerced_Zarr: "writes_coerced (Zarr_write_leaf ext) (Zarr_coerce ext)"
  unfolding writes_coerced_def
  by (auto simp: Zarr_write_leaf_def dest: create_with_fallback_plain split: sum.splits)

lemma leaf_reads_back:
  assumes "writes_coerced leaf c" and "leaf key v g = (None, g')" and "plain_name key"
  shows "recursively_read_group g' = recursively_read_group g @ [(key, stored_leaf c v)]"
proof -
  from assms obtain a where "c v = Inr a" and "g' = g @ [(key, H5Dataset a)]"
    unfolding writes_coerced_def by blast
  then show ?thesis by (simp add: recursively_read_group_append stored_leaf_def)
qed

lemma write_reads_back:
  "(writes_coerced leaf c \<longrightarrow> write_value at_path leaf key v g = (None, g') \<longrightarrow> plain_name key
      \<longrightarrow> plain_value v \<longrightarrow>
            recursively_read_group g' = recursively_read_group g @ [(key, stored_value c v)])"
  "(writes_coerced leaf c \<longrightarrow> write_items at_path leaf d g = (None, g') \<longrightarrow> plain_items d \<longrightarrow>
            recursively_read_group g' = recursively_read_group g @ stored_items c d)"
proof (induction at_path leaf key v g and at_path leaf d g arbitrary: g' and g'
        rule: write_value_write_items.induct)
  case (1 at_path leaf key d g)
  show ?case
  proof (intro impI)
    assume k: "writes_coerced leaf c"
      and w: "write_value at_path leaf key (PDict d) g = (None, g')"
      and pn: "plain_name key" and l: "plain_value (PDict d)"
    obtain e sub where wi: "write_items at_path leaf d [] = (e, sub)"
      by (cases "write_items at_path leaf d []")
    have fresh: "key \<notin> set (map fst g)"
    proof
      assume "key \<in> set (map fst g)"
      with w pn show False by (simp add: create_member_def)
    qed
    with pn have cm: "create_member at_path key g = Inr (\<lambda>item. g @ [(key, item)])"
      by (simp add: create_member_def)
    from w wi cm have e: "e = None" and g': "g' = g @ [(key, H5Group sub)]" by simp_all
    from "1.IH" [OF cm, of sub] k wi e l have "recursively_read_group sub = stored_items c d" by simp
    with g' show "recursively_read_group g' = recursively_read_group g @ [(key, stored_value c (PDict d))]"
      by (simp add: recursively_read_group_append)
  qed
next
  case (11 at_path leaf key v kvs g)
  show ?case
  proof (intro impI)
    assume k: "writes_coerced leaf c"
      and w: "write_items at_path leaf ((key, v) # kvs) g = (None, g')"
      and l: "plain_items ((key, v) # kvs)"
    obtain e1 g1 where wv: "write_value at_path leaf key v g = (e1, g1)"
      by (cases "write_value at_path leaf key v g")
    have e1: "e1 = None"
    proof (cases e1)
      case None
      then show ?thesis .
    next
      case (Some e)
      with w wv show ?thesis by simp
    qed
    from w wv e1 have wk: "write_items at_path leaf kvs g1 = (None, g')" by simp
    from "11.IH"(1) [of g1] k wv e1 l
    have r1: "recursively_read_group g1 = recursively_read_group g @ [(key, stored_value c v)]" by simp
    from "11.IH"(2) [OF wv [symmetric] e1, of g'] k wk l
    have "recursively_read_group g' = recursively_read_group g1 @ stored_items c kvs" by simp
    with r1 show "recursively_read_group g' = recursively_read_group g @ stored_items c ((key, v) # kvs)"
      by simp
  qed
qed (auto dest: leaf_reads_back)










lemma mkdir_then:
  "fst (case path_mkdir q w of (Inl e, w1) \<Rightarrow> (Inl e, w1) | (Inr u, w1) \<Rightarrow> f w1) = Inr () \<Longrightarrow>
     (case path_mkdir q w of (Inl e, w1) \<Rightarrow> (Inl e, w1) | (Inr u, w1) \<Rightarrow> f w1)
       = f (snd (path_mkdir q w))"
  by (cases "path_mkdir q w"; cases "fst (path_mkdir q w)") auto











section \<open>Validation through the tree codecs\<close>

lemma put_node_twice [simp]: "put_node p n (put_node p m fs) = put_node p n fs"
  by (induction fs) auto

lemma write_node_twice [simp]: "write_node p n (write_node p m w) = write_node p n w"
  by (simp add: write_node_def)

lemma mkdirs_existing:
  "list_all (\<lambda>q. case node_at w q of Some m \<Rightarrow> is_dir_node m | None \<Rightarrow> False) qs
     \<Longrightarrow> mkdirs qs w = (Inr (), w)"
  by (induction qs) (auto split: option.splits)

lemma HDF5Loader_validate_eq:
  "HDF5Loader_validate ext p data w =
     (if can_write_file w p
      then (Inr (fst (recursively_write_group (h5_at_path ext) (HDF5_write_leaf ext) [] data) = None),
            write_node p
              (H5File (snd (recursively_write_group (h5_at_path ext) (HDF5_write_leaf ext) [] data)))
              (record_io (IOOpenWrite p) w))
      else (Inr False, record_io (IOOpenWrite p) w))"
  by (cases "recursively_write_group (h5_at_path ext) (HDF5_write_leaf ext) [] data";
      cases "fst (recursively_write_group (h5_at_path ext) (HDF5_write_leaf ext) [] data)")
     (auto simp: HDF5Loader_validate_def tree_write_def h5_open_w_def)

lemma ZarrLoader_validate_eq:
  "ZarrLoader_validate ext p data w =
     (if fst (zarr_open_w p w) = Inr ()
      then (Inr (fst (recursively_write_group (zarr_at_path ext) (Zarr_write_leaf ext) [] data) = None),
            write_node p
              (ZarrStore (snd (recursively_write_group (zarr_at_path ext) (Zarr_write_leaf ext) [] data)))
              (snd (zarr_open_w p w)))
      else (Inr False, snd (zarr_open_w p w)))"
  by (cases "recursively_write_group (zarr_at_path ext) (Zarr_write_leaf ext) [] data";
      cases "fst (recursively_write_group (zarr_at_path ext) (Zarr_write_leaf ext) [] data)";
      cases "zarr_open_w p w"; cases "fst (zarr_open_w p w)")
     (auto simp: ZarrLoader_validate_def tree_write_def)

lemma zarr_open_w_existing:
  assumes "p \<noteq> []"
    and "list_all (\<lambda>q. case node_at w q of Some m \<Rightarrow> is_dir_node m | None \<Rightarrow> False)
           (ancestors_and_self (butlast p))"
    and "case node_at w p of Some n \<Rightarrow> is_dir_node n | None \<Rightarrow> True"
  shows "zarr_open_w p w
           = (Inr (), write_node p (ZarrStore []) (remove_below p (record_io (IOOpenWrite p) w)))"
proof -
  from assms(2) have "list_all (\<lambda>q. case node_at (record_io (IOOpenWrite p) w) q of
                          Some m \<Rightarrow> is_dir_node m | None \<Rightarrow> False) (ancestors_and_self (butlast p))"
    by simp
  from mkdirs_existing [OF this] assms(1,3) show ?thesis
    by (simp add: zarr_open_w_def)
qed


text \<open>
  Claim C4, as the program has it. \<^verbatim>\<open>validate\<close> of the HDF5 and of the Zarr codec opens
  the bound path for writing. When the open succeeds (for HDF5: the path is a regular
  file, or absent, in an existing directory), the file or store is left holding what
  the writer produced from the data, and the answer says whether the writer came to
  its end: the whole tree, which reads back as the data with its leaves coerced, when
  the answer is \<^verbatim>\<open>True\<close>; what was written before the exception, nothing at all when the
  data is not a dictionary, when it is \<^verbatim>\<open>False\<close>. When the open fails (for HDF5: the path
  is a directory, or its parent is missing; for Zarr: the path or an ancestor is a
  regular file), the answer is \<^verbatim>\<open>False\<close> and the world is as the failed open left it.
  An open of a Zarr store succeeds on a path that is a directory, or absent, below
  existing directories, and empties the store.
\<close>

theorem tree_validate_overwrites:
  "(can_write_file w p \<longrightarrow>
      HDF5Loader_validate ext p data w
        = (Inr (fst (recursively_write_group (h5_at_path ext) (HDF5_write_leaf ext) [] data) = None),
           write_node p
             (H5File (snd (recursively_write_group (h5_at_path ext) (HDF5_write_leaf ext) [] data)))
             (record_io (IOOpenWrite p) w))
      \<and> node_at (snd (HDF5Loader_validate ext p data w)) p
          = Some (H5File (snd (recursively_write_group (h5_at_path ext) (HDF5_write_leaf ext) [] data))))
   \<and> (\<not> can_write_file w p \<longrightarrow>
        HDF5Loader_validate ext p data w = (Inr False, record_io (IOOpenWrite p) w))
   \<and> (fst (zarr_open_w p w) = Inr () \<longrightarrow>
      ZarrLoader_validate ext p data w
        = (Inr (fst (recursively_write_group (zarr_at_path ext) (Zarr_write_leaf ext) [] data) = None),
           write_node p
             (ZarrStore (snd (recursively_write_group (zarr_at_path ext) (Zarr_write_leaf ext) [] data)))
             (snd (zarr_open_w p w)))
      \<and> node_at (snd (ZarrLoader_validate ext p data w)) p
          = Some (ZarrStore (snd (recursively_write_group (zarr_at_path ext) (Zarr_write_leaf ext) [] data))))
   \<and> (fst (zarr_open_w p w) \<noteq> Inr () \<longrightarrow>
        ZarrLoader_validate ext p data w = (Inr False, snd (zarr_open_w p w)))
   \<and> (p \<noteq> []
        \<and> list_all (\<lambda>q. case node_at w q of Some m \<Rightarrow> is_dir_node m | None \<Rightarrow> False)
             (ancestors_and_self (butlast p))
        \<and> (case node_at w p of Some n \<Rightarrow> is_dir_node n | None \<Rightarrow> True) \<longrightarrow>
        zarr_open_w p w
          = (Inr (), write_node p (ZarrStore []) (remove_below p (record_io (IOOpenWrite p) w))))
   \<and> (plain_items d
        \<and> fst (recursively_write_group (h5_at_path ext) (HDF5_write_leaf ext) [] (PDict d)) = None \<longrightarrow>
        recursively_read_group
          (snd (recursively_write_group (h5_at_path ext) (HDF5_write_leaf ext) [] (PDict d)))
          = stored_items (HDF5_coerce ext) d)
   \<and> (plain_items d
        \<and> fst (recursively_write_group (zarr_at_path ext) (Zarr_write_leaf ext) [] (PDict d)) = None \<longrightarrow>
        recursively_read_group
          (snd (recursively_write_group (zarr_at_path ext) (Zarr_write_leaf ext) [] (PDict d)))
          = stored_items (Zarr_coerce ext) d)
   \<and> (case data of
         PDict d' \<Rightarrow> True
       | _ \<Rightarrow> recursively_write_group (h5_at_path ext) (HDF5_write_leaf ext) [] data
               = (Some AttributeError, [])
             \<and> recursively_write_group (zarr_at_path ext) (Zarr_write_leaf ext) [] data
               = (Some AttributeError, []))"
proof (intro conjI impI)
  assume "can_write_file w p"
  then show h: "HDF5Loader_validate ext p data w
        = (Inr (fst (recursively_write_group (h5_at_path ext) (HDF5_write_leaf ext) [] data) = None),
           write_node p
             (H5File (snd (recursively_write_group (h5_at_path ext) (HDF5_write_leaf ext) [] data)))
             (record_io (IOOpenWrite p) w))"
    by (simp add: HDF5Loader_validate_eq)
  show "node_at (snd (HDF5Loader_validate ext p data w)) p
          = Some (H5File (snd (recursively_write_group (h5_at_path ext) (HDF5_write_leaf ext) [] data)))"
    unfolding h by simp
next
  assume "\<not> can_write_file w p"
  then show "HDF5Loader_validate ext p data w = (Inr False, record_io (IOOpenWrite p) w)"
    by (simp add: HDF5Loader_validate_eq)
next
  assume "fst (zarr_open_w p w) = Inr ()"
  then show z: "ZarrLoader_validate ext p data w
        = (Inr (fst (recursively_write_group (zarr_at_path ext) (Zarr_write_leaf ext) [] data) = None),
           write_node p
             (ZarrStore (snd (recursively_write_group (zarr_at_path ext) (Zarr_write_leaf ext) [] data)))
             (snd (zarr_open_w p w)))"
    by (simp add: ZarrLoader_validate_eq)
  show "node_at (snd (ZarrLoader_validate ext p data w)) p
          = Some (ZarrStore (snd (recursively_write_group (zarr_at_path ext) (Zarr_write_leaf ext) [] data)))"
    unfolding z by simp
next
  assume "fst (zarr_open_w p w) \<noteq> Inr ()"
  then show "ZarrLoader_validate ext p data w = (Inr False, snd (zarr_open_w p w))"
    by (simp add: ZarrLoader_validate_eq)
next
  assume "p \<noteq> []
        \<and> list_all (\<lambda>q. case node_at w q of Some m \<Rightarrow> is_dir_node m | None \<Rightarrow> False)
             (ancestors_and_self (butlast p))
        \<and> (case node_at w p of Some n \<Rightarrow> is_dir_node n | None \<Rightarrow> True)"
  then show "zarr_open_w p w
          = (Inr (), write_node p (ZarrStore []) (remove_below p (record_io (IOOpenWrite p) w)))"
    using zarr_open_w_existing [of p w] by blast
next
  assume a: "plain_items d
        \<and> fst (recursively_write_group (h5_at_path ext) (HDF5_write_leaf ext) [] (PDict d)) = None"
  then have "write_items (h5_at_path ext) (HDF5_write_leaf ext) d []
      = (None, snd (recursively_write_group (h5_at_path ext) (HDF5_write_leaf ext) [] (PDict d)))"
    by (cases "write_items (h5_at_path ext) (HDF5_write_leaf ext) d []")
       (simp add: recursively_write_group_def)
  with a write_reads_back(2) [of "HDF5_write_leaf ext" "HDF5_coerce ext" "h5_at_path ext" d "[]"
      "snd (recursively_write_group (h5_at_path ext) (HDF5_write_leaf ext) [] (PDict d))"]
    writes_coerced_HDF5 [of ext]
  show "recursively_read_group
          (snd (recursively_write_group (h5_at_path ext) (HDF5_write_leaf ext) [] (PDict d)))
          = stored_items (HDF5_coerce ext) d"
    by simp
next
  assume a: "plain_items d
        \<and> fst (recursively_write_group (zarr_at_path ext) (Zarr_write_leaf ext) [] (PDict d)) = None"
  then have "write_items (zarr_at_path ext) (Zarr_write_leaf ext) d []
      = (None, snd (recursively_write_group (zarr_at_path ext) (Zarr_write_leaf ext) [] (PDict d)))"
    by (cases "write_items (zarr_at_path ext) (Zarr_write_leaf ext) d []")
       (simp add: recursively_write_group_def)
  with a write_reads_back(2) [of "Zarr_write_leaf ext" "Zarr_coerce ext" "zarr_at_path ext" d "[]"
      "snd (recursively_write_group (zarr_at_path ext) (Zarr_write_leaf ext) [] (PDict d))"]
    writes_coerced_Zarr [of ext]
  show "recursively_read_group
          (snd (recursively_write_group (zarr_at_path ext) (Zarr_write_leaf ext) [] (PDict d)))
          = stored_items (Zarr_coerce ext) d"
    by simp
next
  show "case data of
         PDict d' \<Rightarrow> True
       | _ \<Rightarrow> recursively_write_group (h5_at_path ext) (HDF5_write_leaf ext) [] data
               = (Some AttributeError, [])
             \<and> recursively_write_group (zarr_at_path ext) (Zarr_write_leaf ext) [] data
               = (Some AttributeError, [])"
    by (cases data) (simp_all add: recursively_write_group_def)
qed


theorem tree_validate_overwrites_witness:
  "HDF5Loader_validate sample_lib [''data'', ''run.h5''] (PDict [(''n'', PInt 7)]) sample_store_world
     = (Inr True,
        write_node [''data'', ''run.h5''] (H5File [(''n'', H5Dataset (NDArray DInt [1] [SInt 7]))])
          (record_io (IOOpenWrite [''data'', ''run.h5'']) sample_store_world))
   \<and> node_at (snd (HDF5Loader_validate sample_lib [''data'', ''run.h5''] (PDict [(''n'', PInt 7)])
                     sample_store_world)) [''data'', ''run.h5'']
       = Some (H5File [(''n'', H5Dataset (NDArray DInt [1] [SInt 7]))])
   \<and> HDF5Loader_validate sample_lib [''data''] PNone sample_store_world
       = (Inr False, record_io (IOOpenWrite [''data'']) sample_store_world)
   \<and> ZarrLoader_validate sample_lib [''data'', ''run.zarr''] PNone sample_store_world
       = (Inr False,
          write_node [''data'', ''run.zarr''] (ZarrStore [])
            (snd (zarr_open_w [''data'', ''run.zarr''] sample_store_world)))
   \<and> ZarrLoader_validate sample_lib [''data'', ''run.h5''] PNone sample_store_world
       = (Inr False, snd (zarr_open_w [''data'', ''run.h5''] sample_store_world))
   \<and> zarr_open_w [''data'', ''run.zarr''] sample_store_world
       = (Inr (), write_node [''data'', ''run.zarr''] (ZarrStore [])
                    (remove_below [''data'', ''run.zarr'']
                       (record_io (IOOpenWrite [''data'', ''run.zarr'']) sample_store_world)))
   \<and> recursively_read_group [(''n'', H5Dataset (NDArray DInt [1] [SInt 7]))]
       = [(''n'', PArray (NDArray DInt [1] [SInt 7]))]"
proof -
  have e1: "recursively_write_group (h5_at_path sample_lib) (HDF5_write_leaf sample_lib) []
              (PDict [(''n'', PInt 7)]) = (None, [(''n'', H5Dataset (NDArray DInt [1] [SInt 7]))])"
    by code_simp
  have e2: "recursively_write_group (zarr_at_path sample_lib) (Zarr_write_leaf sample_lib) [] PNone
              = (Some AttributeError, [])"
    by code_simp
  have e3: "stored_items (HDF5_coerce sample_lib) [(''n'', PInt 7)]
              = [(''n'', PArray (NDArray DInt [1] [SInt 7]))]"
    by code_simp
  have p1: "plain_items [(''n'', PInt 7)]" by code_simp
  have c1: "can_write_file sample_store_world [''data'', ''run.h5'']" by code_simp
  have c2: "\<not> can_write_file sample_store_world [''data'']" by code_simp
  have z1: "fst (zarr_open_w [''data'', ''run.zarr''] sample_store_world) = Inr ()" by code_simp
  have z2: "fst (zarr_open_w [''data'', ''run.h5''] sample_store_world) \<noteq> Inr ()" by code_simp
  have z3: "[''data'', ''run.zarr''] \<noteq> []
        \<and> list_all (\<lambda>q. case node_at sample_store_world q of Some m \<Rightarrow> is_dir_node m | None \<Rightarrow> False)
             (ancestors_and_self (butlast [''data'', ''run.zarr'']))
        \<and> (case node_at sample_store_world [''data'', ''run.zarr''] of
              Some n \<Rightarrow> is_dir_node n | None \<Rightarrow> True)"
    by code_simp
  note i1 = tree_validate_overwrites [where w = sample_store_world and p = "[''data'', ''run.h5'']"
        and ext = sample_lib and data = "PDict [(''n'', PInt 7)]" and d = "[(''n'', PInt 7)]"]
  note i2 = tree_validate_overwrites [where w = sample_store_world and p = "[''data'']"
        and ext = sample_lib and data = PNone and d = "[]"]
  note i3 = tree_validate_overwrites [where w = sample_store_world and p = "[''data'', ''run.zarr'']"
        and ext = sample_lib and data = PNone and d = "[]"]
  note i4 = tree_validate_overwrites [where w = sample_store_world and p = "[''data'', ''run.h5'']"
        and ext = sample_lib and data = PNone and d = "[]"]
  have r1: "HDF5Loader_validate sample_lib [''data'', ''run.h5''] (PDict [(''n'', PInt 7)]) sample_store_world
     = (Inr True,
        write_node [''data'', ''run.h5''] (H5File [(''n'', H5Dataset (NDArray DInt [1] [SInt 7]))])
          (record_io (IOOpenWrite [''data'', ''run.h5'']) sample_store_world))"
    using i1 c1 by (simp only: e1 fst_conv snd_conv simp_thms)
  have r2: "node_at (snd (HDF5Loader_validate sample_lib [''data'', ''run.h5''] (PDict [(''n'', PInt 7)])
                     sample_store_world)) [''data'', ''run.h5'']
       = Some (H5File [(''n'', H5Dataset (NDArray DInt [1] [SInt 7]))])"
    using i1 [unfolded e1 snd_conv] c1 by blast
  have r3: "HDF5Loader_validate sample_lib [''data''] PNone sample_store_world
       = (Inr False, record_io (IOOpenWrite [''data'']) sample_store_world)"
    using i2 c2 by (simp only: simp_thms)
  have r4: "ZarrLoader_validate sample_lib [''data'', ''run.zarr''] PNone sample_store_world
       = (Inr False,
          write_node [''data'', ''run.zarr''] (ZarrStore [])
            (snd (zarr_open_w [''data'', ''run.zarr''] sample_store_world)))"
    using i3 z1 by (simp only: e2 fst_conv snd_conv option.distinct simp_thms)
  have r5: "ZarrLoader_validate sample_lib [''data'', ''run.h5''] PNone sample_store_world
       = (Inr False, snd (zarr_open_w [''data'', ''run.h5''] sample_store_world))"
    using i4 z2 by (simp only: simp_thms)
  have r6: "zarr_open_w [''data'', ''run.zarr''] sample_store_world
       = (Inr (), write_node [''data'', ''run.zarr''] (ZarrStore [])
                    (remove_below [''data'', ''run.zarr'']
                       (record_io (IOOpenWrite [''data'', ''run.zarr'']) sample_store_world)))"
    using i3 z3 by (simp only: simp_thms)
  have r7: "recursively_read_group [(''n'', H5Dataset (NDArray DInt [1] [SInt 7]))]
       = [(''n'', PArray (NDArray DInt [1] [SInt 7]))]"
    using i1 p1 by (simp only: e1 e3 fst_conv snd_conv simp_thms)
  show ?thesis using r1 r2 r3 r4 r5 r6 r7 by (simp only: simp_thms)
qed

text \<open>
  The claim as worded fails where the bound path cannot be opened for writing: the
  HDF5 codec bound to a directory, and the Zarr codec bound to a regular file, answer
  \<^verbatim>\<open>False\<close> and overwrite nothing.
\<close>

theorem validate_unwritable_path_counterexample:
  "HDF5Loader_validate sample_lib [''data'']
      (PDict [(''obs'', PArray (NDArray DFloat [2] [SFloat 1, SFloat 2]))]) sample_store_world
     = (Inr False, sample_store_world\<lparr>trace := [IOOpenWrite [''data'']]\<rparr>)
   \<and> ZarrLoader_validate sample_lib [''data'', ''run.h5'']
      (PDict [(''obs'', PArray (NDArray DFloat [2] [SFloat 1, SFloat 2]))]) sample_store_world
     = (Inr False, sample_store_world\<lparr>trace := [IOOpenWrite [''data'', ''run.h5'']]\<rparr>)"
  by code_simp

section \<open>The files and the loop of a batch\<close>

lemma find_in_eq:
  "find_in d es found w =
     (found @ concat (map (\<lambda>e. filter (\<lambda>q. strictly_below d q \<and> ends_with (path_name q) e)
                                  (map fst (files w))) es),
      foldl (\<lambda>w1 e. record_io (IOGlob d (''*'' @ e)) w1) w es)"
  by (induction es arbitrary: found w) (auto simp: rglob_def)

lemma files_foldl_record_io [simp]:
  "files (foldl (\<lambda>w1 e. record_io (f e) w1) w es) = files w"
  by (induction es arbitrary: w) auto

lemma find_files_eq:
  "fst (find_files d sf w) =
     concat (map (\<lambda>e. filter (\<lambda>q. strictly_below d q \<and> ends_with (path_name q) e)
                      (map fst (files w))) (extensions sf))"
  by (simp add: find_files_def find_in_eq)

lemma find_files_member:
  "f \<in> set (fst (find_files d sf w)) \<Longrightarrow>
     strictly_below d f \<and> (\<exists>e\<in>set (extensions sf). ends_with (path_name f) e)"
  by (auto simp: find_files_eq)

lemma extension_shape:
  "e \<in> set (extensions sf) \<Longrightarrow> \<exists>r. e = CHR ''.'' # r \<and> r \<noteq> [] \<and> CHR ''.'' \<notin> set r"
  by (cases sf) (auto simp: extensions_def)

lemma get_extension_ok:
  "CHR ''/'' \<notin> set (get_extension tf) \<and> starts_with (get_extension tf) ''.''
     \<and> get_extension tf \<noteq> ''.'' \<and> get_extension tf \<noteq> []"
  by (cases tf) (simp_all add: get_extension_def starts_with_def)

lemma path_name_drop:
  "length d < length f \<Longrightarrow> path_name (drop (length d) f) = path_name f"
  by (auto simp: path_name_def)

lemma path_suffix_drop:
  "length d < length f \<Longrightarrow> path_suffix (drop (length d) f) = path_suffix f"
  by (simp add: path_suffix_def path_name_drop)

lemma found_target:
  assumes "strictly_below sd f" and "e \<in> set (extensions sf)" and "ends_with (path_name f) e"
  shows "relative_to f sd = Inr (drop (length sd) f)"
    and "with_suffix (drop (length sd) f) (get_extension tf)
           = Inr (butlast (drop (length sd) f)
                  @ [take (length (path_name f) - length (path_suffix f)) (path_name f)
                       @ get_extension tf])"
proof -
  from assms(1) have len: "length sd < length f" and tk: "take (length sd) f = sd"
    by (simp_all add: strictly_below_def)
  from tk show "relative_to f sd = Inr (drop (length sd) f)"
    by (simp add: relative_to_def)
  from extension_shape [OF assms(2)] assms(3) have "path_name f \<noteq> []"
    by (auto simp: ends_with_def)
  with len get_extension_ok [of tf]
  show "with_suffix (drop (length sd) f) (get_extension tf)
           = Inr (butlast (drop (length sd) f)
                  @ [take (length (path_name f) - length (path_suffix f)) (path_name f)
                       @ get_extension tf])"
    by (simp add: with_suffix_def path_name_drop path_suffix_drop)
qed

lemma batch_loop_step:
  assumes "strictly_below sd f" and "e \<in> set (extensions sf)" and "ends_with (path_name f) e"
  shows "batch_loop ext dm sd td sf tf kw (f # rest) w =
     (case DataManager_convert ext dm f (batch_target sd td tf f) sf tf kw w of
        (Inr u, w1) \<Rightarrow>
          batch_loop ext dm sd td sf tf kw rest (log_event (LogConverted f (batch_target sd td tf f)) w1)
      | (Inl e', w1) \<Rightarrow>
          batch_loop ext dm sd td sf tf kw rest (log_event (LogFailed f e') w1))"
  using found_target(1) [OF assms] found_target(2) [OF assms, where tf = tf]
  unfolding batch_target_def by simp

lemma batch_loop_convert_each:
  "(\<forall>f\<in>set fs. strictly_below sd f \<and> (\<exists>e\<in>set (extensions sf). ends_with (path_name f) e)) \<Longrightarrow>
     batch_loop ext dm sd td sf tf kw fs w
       = (Inr (), convert_each ext dm sf tf kw (map (\<lambda>f. (f, batch_target sd td tf f)) fs) w)"
proof (induction fs arbitrary: w)
  case Nil
  then show ?case by simp
next
  case (Cons f fs)
  from Cons.prems obtain e where sb: "strictly_below sd f" and e: "e \<in> set (extensions sf)"
    and ew: "ends_with (path_name f) e"
    by auto
  from Cons.prems have rest: "\<forall>f\<in>set fs. strictly_below sd f
      \<and> (\<exists>e\<in>set (extensions sf). ends_with (path_name f) e)"
    by simp
  show ?case
    unfolding batch_loop_step [OF sb e ew]
    by (cases "DataManager_convert ext dm f (batch_target sd td tf f) sf tf kw w";
        cases "fst (DataManager_convert ext dm f (batch_target sd td tf f) sf tf kw w)")
       (auto simp: Cons.IH [OF rest])
qed

lemma logged_log_event [simp]: "logged (log_event ev w) = logged w @ [ev]"
  by (simp add: log_event_def)

lemma logged_write_encoded [simp]: "logged (snd (write_encoded enc p w)) = logged w"
  by (auto simp: write_encoded_def write_bytes_def split: option.splits)

lemma logged_h5_open_w [simp]: "logged (snd (h5_open_w p w)) = logged w"
  by (simp add: h5_open_w_def)

lemma logged_tree_write:
  "logged (snd (open_w p w)) = logged w
     \<Longrightarrow> logged (snd (tree_write open_w mk at_path leaf p data w)) = logged w"
  by (cases "open_w p w"; cases "fst (open_w p w)";
      cases "recursively_write_group at_path leaf [] data")
     (auto simp: tree_write_def)

lemma logged_after_mkdir:
  "(\<And>w1. logged (snd (f w1)) = logged w1) \<Longrightarrow>
     logged (snd (case path_mkdir q w of (Inl e, w1) \<Rightarrow> (Inl e, w1) | (Inr u, w1) \<Rightarrow> f w1)) = logged w"
  using logged_path_mkdir [of q w]
  by (cases "path_mkdir q w"; cases "fst (path_mkdir q w)") auto

lemma logged_case_option [simp]:
  "logged (snd (case x of (Some e, w2) \<Rightarrow> (a e, w2) | (None, w2) \<Rightarrow> (b, w2))) = logged (snd x)"
  by (cases x; cases "fst x") auto

lemma loader_save_logged: "logged (snd (loader_save ext cls self data popt w)) = logged w"
proof (cases cls)
  case HDF5Loader
  then show ?thesis
    by (simp add: HDF5Loader_save_def logged_after_mkdir logged_tree_write)
next
  case ZarrLoader
  then show ?thesis
    by (simp add: ZarrLoader_save_def logged_after_mkdir logged_tree_write)
next
  case RLDSLoader
  then show ?thesis
    by (simp add: RLDSLoader_save_def logged_after_mkdir split: sum.splits)
next
  case LeRobotLoader
  then show ?thesis
    by (simp add: LeRobotLoader_save_def logged_after_mkdir split: sum.splits)
next
  case JSONLoader
  then show ?thesis
    by (simp add: JSONLoader_save_def logged_after_mkdir)
next
  case PickleLoader
  then show ?thesis
    by (simp add: PickleLoader_save_def logged_after_mkdir)
next
  case NumPyLoader
  then show ?thesis
    by (simp add: NumPyLoader_save_def logged_after_mkdir split: sum.splits pyval.splits)
qed

lemma DataManager_load_logged: "logged (snd (DataManager_load ext dm p fmt kw w)) = logged w"
  by (simp add: DataManager_load_def BaseDataLoader_init_eq loader_load_logged split: option.splits)

lemma DataManager_save_logged: "logged (snd (DataManager_save ext dm data p fmt kw w)) = logged w"
  by (simp add: DataManager_save_def BaseDataLoader_init_eq loader_save_logged split: option.splits)

lemma DataManager_convert_logged:
  "logged (snd (DataManager_convert ext dm s t sf tf kw w)) = logged w"
proof (cases "DataManager_load ext dm s (if sf = AUTO then detect_format s else sf) kw w")
  case (Pair r w1)
  with DataManager_load_logged [of ext dm s "if sf = AUTO then detect_format s else sf" kw w]
  have l: "logged w1 = logged w" by simp
  show ?thesis
  proof (cases r)
    case (Inl e)
    with Pair l show ?thesis by (simp add: DataManager_convert_def)
  next
    case (Inr d)
    with Pair l show ?thesis by (simp add: DataManager_convert_def DataManager_save_logged)
  qed
qed

lemma convert_each_sources:
  "map event_source (logged (convert_each ext dm sf tf kw tasks w))
     = map event_source (logged w) @ map fst tasks"
proof (induction tasks arbitrary: w)
  case Nil
  then show ?case by simp
next
  case (Cons st tasks)
  obtain s t where st: "st = (s, t)" by (cases st)
  show ?case
    using DataManager_convert_logged [of ext dm s t sf tf kw w]
    by (cases "DataManager_convert ext dm s t sf tf kw w";
        cases "fst (DataManager_convert ext dm s t sf tf kw w)")
       (auto simp: st Cons.IH)
qed




lemma logged_foldl_record_io [simp]:
  "logged (foldl (\<lambda>w1 e. record_io (f e) w1) w es) = logged w"
  by (induction es arbitrary: w) auto

lemma find_files_logged [simp]: "logged (snd (find_files d sf w)) = logged w"
  by (simp add: find_files_def find_in_eq)

lemma find_files_files [simp]: "files (snd (find_files d sf w)) = files w"
  by (simp add: find_files_def find_in_eq)

section \<open>Failure isolation in a batch\<close>

text \<open>
  Claim C8. Once the target directory is there, a batch conversion returns normally,
  whatever the single conversions do: it is \<open>convert_each\<close> on the files found, in the
  order found, so every file is attempted, a conversion that raises is logged as a
  failure and the remaining files are still converted, and the log gains exactly one
  record per file found. The only exception that leaves the call is that of creating
  the target directory, before any file is looked at.
\<close>

theorem batch_convert_isolates_failures:
  "(fst (path_mkdir td w) = Inr () \<longrightarrow>
      batch_convert ext dm sd td sf tf kw w
        = (Inr (),
           convert_each ext dm sf tf kw
             (map (\<lambda>f. (f, batch_target sd td tf f)) (fst (find_files sd sf (snd (path_mkdir td w)))))
             (snd (find_files sd sf (snd (path_mkdir td w)))))
      \<and> map event_source (logged (snd (batch_convert ext dm sd td sf tf kw w)))
          = map event_source (logged w) @ fst (find_files sd sf (snd (path_mkdir td w))))
   \<and> (fst (path_mkdir td w) = Inl e \<longrightarrow>
        batch_convert ext dm sd td sf tf kw w = (Inl e, snd (path_mkdir td w)))
   \<and> convert_each ext dm sf tf kw ((s, t) # rest) w
       = convert_each ext dm sf tf kw rest
           (case DataManager_convert ext dm s t sf tf kw w of
              (Inr u, w1) \<Rightarrow> log_event (LogConverted s t) w1
            | (Inl e', w1) \<Rightarrow> log_event (LogFailed s e') w1)"
proof (intro conjI impI)
  assume ok: "fst (path_mkdir td w) = Inr ()"
  have found: "\<forall>f\<in>set (fst (find_files sd sf (snd (path_mkdir td w)))).
      strictly_below sd f \<and> (\<exists>e\<in>set (extensions sf). ends_with (path_name f) e)"
    using find_files_member by blast
  from ok show eq: "batch_convert ext dm sd td sf tf kw w
        = (Inr (),
           convert_each ext dm sf tf kw
             (map (\<lambda>f. (f, batch_target sd td tf f)) (fst (find_files sd sf (snd (path_mkdir td w)))))
             (snd (find_files sd sf (snd (path_mkdir td w)))))"
    by (cases "path_mkdir td w"; cases "find_files sd sf (snd (path_mkdir td w))")
       (use batch_loop_convert_each [OF found] in \<open>auto simp: batch_convert_def\<close>)
  show "map event_source (logged (snd (batch_convert ext dm sd td sf tf kw w)))
          = map event_source (logged w) @ fst (find_files sd sf (snd (path_mkdir td w)))"
    unfolding eq by (simp add: convert_each_sources comp_def)
next
  assume "fst (path_mkdir td w) = Inl e"
  then show "batch_convert ext dm sd td sf tf kw w = (Inl e, snd (path_mkdir td w))"
    by (cases "path_mkdir td w") (auto simp: batch_convert_def)
next
  show "convert_each ext dm sf tf kw ((s, t) # rest) w
       = convert_each ext dm sf tf kw rest
           (case DataManager_convert ext dm s t sf tf kw w of
              (Inr u, w1) \<Rightarrow> log_event (LogConverted s t) w1
            | (Inl e', w1) \<Rightarrow> log_event (LogFailed s e') w1)"
    by (cases "DataManager_convert ext dm s t sf tf kw w";
        cases "fst (DataManager_convert ext dm s t sf tf kw w)") auto
qed


theorem batch_convert_isolates_failures_witness:
  "fst (batch_convert sample_lib DataManager_init [''src''] [''out''] JSON PICKLE None sample_world) = Inr ()
   \<and> map event_source
        (logged (snd (batch_convert sample_lib DataManager_init [''src''] [''out''] JSON PICKLE None
                        sample_world)))
       = [[''src'', ''a.json''], [''src'', ''b.json''], [''src'', ''bad.json''], [''src'', ''c.json'']]
   \<and> batch_convert sample_lib DataManager_init [''src''] [''src'', ''a.json'', ''out''] JSON PICKLE None
        sample_world
       = (Inl (FileExistsError [''src'', ''a.json'']),
          snd (path_mkdir [''src'', ''a.json'', ''out''] sample_world))"
proof -
  have p1: "fst (path_mkdir [''out''] sample_world) = Inr ()" by code_simp
  have p2: "fst (path_mkdir [''src'', ''a.json'', ''out''] sample_world)
              = Inl (FileExistsError [''src'', ''a.json''])"
    by code_simp
  have v1: "map event_source (logged sample_world)
              @ fst (find_files [''src''] JSON (snd (path_mkdir [''out''] sample_world)))
            = [[''src'', ''a.json''], [''src'', ''b.json''], [''src'', ''bad.json''], [''src'', ''c.json'']]"
    by code_simp
  note i1 = batch_convert_isolates_failures [where td = "[''out'']" and w = sample_world
      and ext = sample_lib and dm = DataManager_init and sd = "[''src'']" and sf = JSON and tf = PICKLE
      and kw = None and e = OSError]
  note i2 = batch_convert_isolates_failures [where td = "[''src'', ''a.json'', ''out'']"
      and w = sample_world and ext = sample_lib and dm = DataManager_init and sd = "[''src'']"
      and sf = JSON and tf = PICKLE and kw = None and e = "FileExistsError [''src'', ''a.json'']"]
  have c1: "fst (batch_convert sample_lib DataManager_init [''src''] [''out''] JSON PICKLE None
                   sample_world) = Inr ()"
    using i1 p1 by simp
  have c2: "map event_source
        (logged (snd (batch_convert sample_lib DataManager_init [''src''] [''out''] JSON PICKLE None
                        sample_world)))
       = [[''src'', ''a.json''], [''src'', ''b.json''], [''src'', ''bad.json''], [''src'', ''c.json'']]"
    by (rule i1 [THEN conjunct1, THEN mp, OF p1, THEN conjunct2, unfolded v1])
  have c3: "batch_convert sample_lib DataManager_init [''src''] [''src'', ''a.json'', ''out''] JSON PICKLE
              None sample_world
       = (Inl (FileExistsError [''src'', ''a.json'']),
          snd (path_mkdir [''src'', ''a.json'', ''out''] sample_world))"
    using i2 p2 by simp
  show ?thesis using c1 c2 c3 by (simp only: simp_thms)
qed

section \<open>What a batch enumerates\<close>





end
